theory Spec2Isabelle
  imports Complex_Main
begin

section \<open>IL-2 mission debrief parser: a shallow embedding of \<open>il2_mission_debrief.py\<close>\<close>

text \<open>
  The development follows the source file top down: the string operations the classifier
  uses, \<open>GameObject\<close> with \<open>classify_type\<close>, \<open>MissionStats\<close> with \<open>add_kill\<close>, the
  passes of \<open>MissionDebriefParser.parse\<close>, and the parts of \<open>to_json\<close> that count kills and
  relabel landing damage.

  Conventions of the embedding.
  \<^item> Python \<open>str\<close> is \<open>string\<close>; only ASCII case and ASCII white space are modelled.
  \<^item> A Python \<open>float\<close> is the rational number the double denotes. The arithmetic on
    damage fractions rounds each exact result to the nearest double, ties to even (\<open>fl\<close>):
    \<open>float(text)\<close> in \<open>_f\<close>, the literals \<open>0.8\<close> and \<open>0.01\<close>, \<open>+=\<close>, \<open>sum\<close>, \<open>/\<close> and
    \<open>*\<close>. Results of magnitude \<open>2^1024\<close> or more (\<open>inf\<close> in Python) and the sign of zero
    are outside the model. The quotients \<open>t / 50.0\<close> and \<open>(takeoff_alt + landing_alt) / 2\<close>
    of integers are kept exact: only the integer parts of the first are used, which the
    double has too for less than \<open>2^52\<close> ticks, and the second is a double itself.
  \<^item> Python \<open>int\<close> is \<open>int\<close>; \<open>None\<close> is \<open>None\<close> of an option type. The truth value Python
    gives an optional integer (\<open>None\<close> and \<open>0\<close> are false) is \<open>truthy\<close>.
  \<^item> A time text \<open>f"{h:02}:{m:02}:{s:02}"\<close> is kept as its three integer fields
    \<open>(h, m, s)\<close>; splitting such a text at \<open>:\<close> and reading the parts with \<open>int\<close> gives the
    three fields back.
\<close>

subsection \<open>String operations\<close>

definition lower_char :: "char \<Rightarrow> char" where
  "lower_char c =
     (case map_of (zip ''ABCDEFGHIJKLMNOPQRSTUVWXYZ'' ''abcdefghijklmnopqrstuvwxyz'') c of
        Some d \<Rightarrow> d
      | None \<Rightarrow> c)"

definition lower :: "string \<Rightarrow> string" where
  "lower s = map lower_char s"

definition is_space :: "char \<Rightarrow> bool" where
  "is_space c = (c \<in> set [CHR '' '', CHR 0x09, CHR 0x0A, CHR 0x0B, CHR 0x0C, CHR 0x0D,
                           CHR 0x1C, CHR 0x1D, CHR 0x1E, CHR 0x1F])"

definition strip :: "string \<Rightarrow> string" where
  "strip s = rev (dropWhile is_space (rev (dropWhile is_space s)))"

definition startswith :: "string \<Rightarrow> string \<Rightarrow> bool" where
  "startswith s p = (take (length p) s = p)"

text \<open>\<open>contains x s\<close> is Python's \<open>x in s\<close> on strings.\<close>

fun contains :: "string \<Rightarrow> string \<Rightarrow> bool" where
  "contains x [] = (x = [])"
| "contains x (c # cs) = (startswith (c # cs) x \<or> contains x cs)"

text \<open>\<open>split_first_bracket s\<close> is \<open>s.split('[')[0]\<close>.\<close>

definition split_first_bracket :: "string \<Rightarrow> string" where
  "split_first_bracket s = takeWhile (\<lambda>c. c \<noteq> CHR ''['') s"

text \<open>\<open>replace_first p s\<close> is \<open>s.replace(p, '', 1)\<close> for a non-empty \<open>p\<close>.\<close>

fun replace_first :: "string \<Rightarrow> string \<Rightarrow> string" where
  "replace_first p [] = []"
| "replace_first p (c # cs) =
     (if startswith (c # cs) p then drop (length p) (c # cs) else c # replace_first p cs)"

definition digit_char :: "nat \<Rightarrow> char" where
  "digit_char n = ''0123456789'' ! n"

fun digits :: "nat \<Rightarrow> string" where
  "digits n = (if n < 10 then [digit_char n] else digits (n div 10) @ [digit_char (n mod 10)])"

declare digits.simps [simp del]

text \<open>\<open>str_int i\<close> is \<open>str(i)\<close>, the text an f-string puts for \<open>{i}\<close>.\<close>

definition str_int :: "int \<Rightarrow> string" where
  "str_int i = (if i < 0 then CHR ''-'' # digits (nat (- i)) else digits (nat i))"

subsection \<open>Floating point\<close>

text \<open>
  \<open>fl x\<close> is the double nearest to \<open>x\<close>. For \<open>x = p / q\<close> with \<open>2^e \<le> p / q < 2^(e+1)\<close> the
  doubles around \<open>x\<close> are the multiples of \<open>2^k\<close>, where \<open>k = e - 52\<close>, and \<open>k = -1074\<close> in
  the subnormal range; \<open>x / 2^k\<close> is rounded to the nearest integer, a tie to the even one.
\<close>

definition pow2 :: "int \<Rightarrow> rat" where
  "pow2 k = (if 0 \<le> k then 2 ^ nat k else 1 / 2 ^ nat (- k))"

function bit_length :: "int \<Rightarrow> int" where
  "bit_length n = (if n \<le> 0 then 0 else bit_length (n div 2) + 1)"
  by pat_completeness auto
termination
  by (relation "measure nat") auto

declare bit_length.simps [simp del]

text \<open>\<open>pow2_le d p q\<close> is \<open>2^d \<le> p / q\<close>, and \<open>binary_exponent p q\<close> the \<open>e\<close> above.\<close>

definition pow2_le :: "int \<Rightarrow> int \<Rightarrow> int \<Rightarrow> bool" where
  "pow2_le d p q = (if 0 \<le> d then 2 ^ nat d * q \<le> p else q \<le> 2 ^ nat (- d) * p)"

definition exponent_near :: "int \<Rightarrow> int \<Rightarrow> int \<Rightarrow> int" where
  "exponent_near d p q = (if pow2_le d p q then d else d - 1)"

definition binary_exponent :: "int \<Rightarrow> int \<Rightarrow> int" where
  "binary_exponent p q = exponent_near (bit_length p - bit_length q) p q"

text \<open>\<open>round_half_even n d\<close> is \<open>n / d\<close> rounded to the nearest integer, a tie to the even one.\<close>

definition nearest_even :: "int \<Rightarrow> int \<Rightarrow> int \<Rightarrow> int" where
  "nearest_even f r d =
     (if 2 * r < d then f else if d < 2 * r then f + 1 else if even f then f else f + 1)"

definition round_half_even :: "int \<Rightarrow> int \<Rightarrow> int" where
  "round_half_even n d = nearest_even (n div d) (n mod d) d"

definition round_at :: "int \<Rightarrow> int \<Rightarrow> int \<Rightarrow> rat" where
  "round_at k p q =
     of_int (if 0 \<le> k then round_half_even p (q * 2 ^ nat k)
             else round_half_even (p * 2 ^ nat (- k)) q) * pow2 k"

definition round_fraction :: "int \<Rightarrow> int \<Rightarrow> rat" where
  "round_fraction p q = round_at (max (binary_exponent p q - 52) (- 1074)) p q"

definition round_signed :: "int \<times> int \<Rightarrow> rat" where
  "round_signed pq =
     (if fst pq = 0 then 0
      else if 0 < fst pq then round_fraction (fst pq) (snd pq)
      else - round_fraction (- fst pq) (snd pq))"

definition fl :: "rat \<Rightarrow> rat" where
  "fl x = round_signed (quotient_of x)"

definition fadd :: "rat \<Rightarrow> rat \<Rightarrow> rat" where
  "fadd x y = fl (x + y)"

definition fdiv :: "rat \<Rightarrow> rat \<Rightarrow> rat" where
  "fdiv x y = fl (x / y)"

definition fmul :: "rat \<Rightarrow> rat \<Rightarrow> rat" where
  "fmul x y = fl (x * y)"

text \<open>
  The built-in \<open>sum\<close> on floats: it starts from the integer 0 and adds from the left,
  each addition rounded. (CPython from 3.12 on also carries a compensation term for the
  rounding errors; for one or two terms the result is the same.)
\<close>

definition py_sum :: "rat list \<Rightarrow> rat" where
  "py_sum xs = foldl fadd 0 xs"

subsection \<open>Configuration and \<open>GameObject\<close>\<close>

text \<open>
  \<open>_category_config\<close> is the dictionary category \<open>\<mapsto>\<close> keyword list of the YAML file, in
  its insertion order; \<open>_exclude_config\<close> is the exclusion list as \<open>_load_config\<close> stores
  it (each entry already lower-cased there). Both are parameters of the model.
\<close>

type_synonym category_config = "(string \<times> string list) list"

text \<open>
  \<open>classify_type\<close>: the tag is lower-cased and stripped; a tag that begins with
  \<open>static_\<close> and has a \<open>[\<close> is cut at its first \<open>[\<close>, and keeps the prefix \<open>static_\<close>.
\<close>

definition classify_type :: "category_config \<Rightarrow> string list \<Rightarrow> string \<Rightarrow> string" where
  "classify_type category_config exclude_config type_tag =
     (let s0 = strip (lower type_tag);
          s = (if startswith s0 ''static_'' \<and> CHR ''['' \<in> set s0
               then split_first_bracket s0 else s0)
      in if list_ex (\<lambda>x. contains x s) exclude_config then ''Excluded''
         else (case find (\<lambda>(cat, keywords). s \<in> set (map lower keywords)) category_config of
                 Some (cat, keywords) \<Rightarrow> cat
               | None \<Rightarrow> ''Unknown''))"

type_synonym hhmmss = "int \<times> int \<times> int"

record game_object =
  o_id :: int
  o_name :: string
  o_is_static :: bool
  o_type :: string
  o_country :: string
  o_category :: string
  o_state :: string
  o_time_of_kill :: "hhmmss option"
  o_altitude :: "int option"

definition GameObject ::
  "category_config \<Rightarrow> string list \<Rightarrow> int \<Rightarrow> string \<Rightarrow> string \<Rightarrow> string \<Rightarrow> game_object" where
  "GameObject category_config exclude_config gid name type_tag country =
     \<lparr> o_id = gid,
       o_name = name,
       o_is_static = (type_tag \<noteq> [] \<and> startswith (lower type_tag) ''static_''),
       o_type = (if type_tag \<noteq> [] \<and> startswith (lower type_tag) ''static_''
                 then split_first_bracket (replace_first ''static_'' type_tag)
                 else type_tag),
       o_country = country,
       o_category = classify_type category_config exclude_config type_tag,
       o_state = ''Alive'',
       o_time_of_kill = None,
       o_altitude = None \<rparr>"

subsection \<open>Decoded log lines\<close>

text \<open>
  \<open>parse\<close> reads each line with substring tests (\<open>"AType:3" in ln\<close>) and regular
  expression searches. A line is modelled by the results of exactly these tests and
  searches: a flag per marker, and per pattern the matched group (\<open>None\<close> when
  \<open>re.search\<close> finds nothing). A group \<open>(\d+)\<close> is a natural number, a group \<open>(-?\d+)\<close>
  an integer; the two patterns for \<open>PID\<close> and for \<open>AID\<close> are separate fields, as they are
  separate searches. \<open>m_DMG\<close> is the decimal number the group spells, which \<open>_f\<close> turns
  into a float, and \<open>m_POS\<close> is \<open>int(float(pos_match.group(2)))\<close>, present exactly when
  \<open>pos_match\<close> is; a line on which \<open>float\<close> would raise (a group such as \<open>1.2.3\<close>) is
  outside the model. The list
  \<open>lines\<close> of \<open>parse\<close> is a list of such lines, in file order.
\<close>

record line =
  has_AType10 :: bool
  has_ISPL1 :: bool
  has_AType12 :: bool
  has_AType2 :: bool
  has_AType3 :: bool
  has_AType5 :: bool
  has_AType18 :: bool
  has_AType6 :: bool
  has_AType7 :: bool
  has_AType13 :: bool
  has_Paratrooper :: bool
  m_PLID :: "nat option"
  m_PID_digits :: "nat option"
  m_NAME :: "string option"
  m_TYPE_COUNTRY :: "string option"
  m_TYPE :: "string option"
  m_AID_digits :: "nat option"
  m_COUNTRY :: "string option"
  m_ID :: "nat option"
  m_T :: "nat option"
  m_AID :: "int option"
  m_TID :: "int option"
  m_DMG :: "rat option"
  m_POS :: "int option"
  m_PID :: "int option"
  m_BOTID :: "int option"
  m_PARENTID :: "int option"

text \<open>The static methods \<open>_i\<close>, \<open>_f\<close> and \<open>_s\<close>, applied to the result of the search.\<close>

definition int_field :: "int option \<Rightarrow> int" where
  "int_field m = (case m of Some v \<Rightarrow> v | None \<Rightarrow> - 1)"

definition float_field :: "rat option \<Rightarrow> rat" where
  "float_field m = (case m of Some v \<Rightarrow> fl v | None \<Rightarrow> 0)"

definition str_field :: "string option \<Rightarrow> string" where
  "str_field m = (case m of Some g \<Rightarrow> strip g | None \<Rightarrow> [])"

text \<open>\<open>self._s(ln, r"TYPE:([^\r\n]+?)\s+COUNTRY:") or self._s(ln, r"TYPE:([^ ]+)")\<close>\<close>

definition type_field :: "line \<Rightarrow> string" where
  "type_field l =
     (if str_field (m_TYPE_COUNTRY l) \<noteq> [] then str_field (m_TYPE_COUNTRY l)
      else str_field (m_TYPE l))"

definition truthy :: "int option \<Rightarrow> bool" where
  "truthy x = (case x of None \<Rightarrow> False | Some v \<Rightarrow> v \<noteq> 0)"

text \<open>
  \<open>mission_time_to_hhmmss\<close>: \<open>sec = t / 50.0\<close>, then \<open>sec // 3600\<close>, \<open>(sec % 3600) // 60\<close>
  and \<open>sec % 60\<close>, each cut to an integer.
\<close>

definition floordiv :: "rat \<Rightarrow> rat \<Rightarrow> rat" where
  "floordiv x y = of_int \<lfloor>x / y\<rfloor>"

definition pymod :: "rat \<Rightarrow> rat \<Rightarrow> rat" where
  "pymod x y = x - y * of_int \<lfloor>x / y\<rfloor>"

definition mission_time_to_hhmmss :: "int \<Rightarrow> hhmmss" where
  "mission_time_to_hhmmss t =
     (let sec = of_int t / 50
      in (\<lfloor>floordiv sec 3600\<rfloor>, \<lfloor>floordiv (pymod sec 3600) 60\<rfloor>, \<lfloor>pymod sec 60\<rfloor>))"

subsection \<open>\<open>MissionStats\<close>\<close>

record hit =
  h_attacker :: int
  h_target :: int
  h_damage :: rat
  h_time :: hhmmss

datatype event_type =
  Damage_Taken | Takeoff | Bailout | Crash | Landing | Mission_End | Kill | Landing_Damage

text \<open>
  An event dictionary. A key the dictionary does not have is \<open>None\<close> (\<open>False\<close> for
  \<open>hard_landing\<close>, which is only ever stored as \<open>True\<close>). The text
  \<open>f"{dmg*100:.1f}% aircraft"\<close> is kept as the pair of the float \<open>dmg * 100\<close> and the word.
\<close>

record event =
  e_time :: hhmmss
  e_type :: event_type
  e_target :: "string option"
  e_damage :: "(rat \<times> string) option"
  e_altitude :: "int option"
  e_time_raw :: "int option"
  e_category :: "string option"
  e_original_target :: "string option"
  e_hard_landing :: bool

text \<open>
  \<open>kills\<close> is a list of references to the objects of \<open>objects\<close>; every object is stored
  under its own id and \<open>objects\<close> no longer changes its keys once the events are read, so
  the list holds the ids and \<open>objects\<close> is the store the references point into.
\<close>

record stats =
  player_id :: "int option"
  player_name :: "string option"
  player_aircraft :: "string option"
  player_pid :: "int option"
  player_plid :: "int option"
  objects :: "int \<rightharpoonup> game_object"
  hits :: "hit list"
  kills :: "int list"
  events :: "event list"
  wounded :: bool
  total_damage_taken :: rat
  total_aircraft_damage :: rat
  total_pilot_damage :: rat
  landed :: bool
  crashed :: bool
  pilot_separation_time :: "int option"
  final_state :: string
  takeoff_time :: "int option"
  landing_time :: "int option"
  flight_duration :: "hhmmss option"

definition MissionStats :: stats where
  "MissionStats =
     \<lparr> player_id = None, player_name = None, player_aircraft = None,
       player_pid = None, player_plid = None,
       objects = Map.empty, hits = [], kills = [], events = [],
       wounded = False,
       total_damage_taken = 0, total_aircraft_damage = 0, total_pilot_damage = 0,
       landed = False, crashed = False,
       pilot_separation_time = None,
       final_state = ''Alive'',
       takeoff_time = None, landing_time = None, flight_duration = None \<rparr>"

definition add_object :: "stats \<Rightarrow> game_object \<Rightarrow> stats" where
  "add_object s obj = s\<lparr>objects := (objects s)(o_id obj \<mapsto> obj)\<rparr>"

definition add_hit :: "stats \<Rightarrow> int \<Rightarrow> int \<Rightarrow> rat \<Rightarrow> hhmmss \<Rightarrow> stats" where
  "add_hit s a t d ts =
     s\<lparr>hits := hits s @ [\<lparr>h_attacker = a, h_target = t, h_damage = d, h_time = ts\<rparr>]\<rparr>"

definition add_kill :: "stats \<Rightarrow> int \<Rightarrow> hhmmss \<Rightarrow> stats" where
  "add_kill s tid ts =
     (case objects s tid of
        None \<Rightarrow> s
      | Some obj \<Rightarrow>
          if o_category obj = ''Excluded'' then s
          else s\<lparr>objects := (objects s)(tid \<mapsto>
                     obj\<lparr>o_state := ''Destroyed'', o_time_of_kill := Some ts\<rparr>),
                 kills := (if tid \<in> set (kills s) then kills s else kills s @ [tid])\<rparr>)"

subsection \<open>\<open>MissionDebriefParser.parse\<close>: registering objects\<close>

definition register_line :: "category_config \<Rightarrow> string list \<Rightarrow> stats \<Rightarrow> line \<Rightarrow> stats" where
  "register_line cc ec s l =
     (if has_AType10 l then
        (let s1 = (if has_ISPL1 l then
                     (let plid = int_field (map_option int (m_PLID l));
                          pid = int_field (map_option int (m_PID_digits l))
                      in s\<lparr>player_plid := Some plid,
                           player_pid := Some pid,
                           player_id := Some (if pid \<noteq> 0 then pid else plid),
                           player_name := Some (str_field (m_NAME l)),
                           player_aircraft := Some (type_field l)\<rparr>)
                   else s);
             gid = int_field (map_option int (m_AID_digits l))
         in add_object s1
              (GameObject cc ec gid (str_field (m_NAME l)) (type_field l)
                 (str_field (m_COUNTRY l))))
      else if has_AType12 l then
        (let gid = int_field (map_option int (m_ID l))
         in add_object s
              (GameObject cc ec gid (str_field (m_NAME l)) (type_field l)
                 (str_field (m_COUNTRY l))))
      else s)"

definition register_objects ::
  "category_config \<Rightarrow> string list \<Rightarrow> stats \<Rightarrow> line list \<Rightarrow> stats" where
  "register_objects cc ec s lines = foldl (register_line cc ec) s lines"

subsection \<open>\<open>parse\<close>: collecting events\<close>

text \<open>\<open>a in (self.stats.player_pid, self.stats.player_plid)\<close>\<close>

definition in_pid_plid :: "stats \<Rightarrow> int \<Rightarrow> bool" where
  "in_pid_plid s a = (player_pid s = Some a \<or> player_plid s = Some a)"

text \<open>\<open>tgt in (self.stats.player_pid, self.stats.player_id)\<close>\<close>

definition in_pid_id :: "stats \<Rightarrow> int \<Rightarrow> bool" where
  "in_pid_id s a = (player_pid s = Some a \<or> player_id s = Some a)"

definition line_t :: "line \<Rightarrow> int" where
  "line_t l = int_field (map_option int (m_T l))"

definition line_ts :: "line \<Rightarrow> hhmmss" where
  "line_ts l = mission_time_to_hhmmss (line_t l)"

definition attacker_name :: "stats \<Rightarrow> int \<Rightarrow> string" where
  "attacker_name s a =
     (case objects s a of
        Some attacker_obj \<Rightarrow> o_type attacker_obj
      | None \<Rightarrow> ''Unknown (ID:'' @ str_int a @ '')'')"

definition damage_event :: "stats \<Rightarrow> line \<Rightarrow> int \<Rightarrow> rat \<Rightarrow> string \<Rightarrow> event" where
  "damage_event s l a dmg what =
     \<lparr> e_time = line_ts l, e_type = Damage_Taken,
       e_target = Some (attacker_name s a),
       e_damage = Some (fmul dmg 100, what),
       e_altitude = m_POS l, e_time_raw = Some (line_t l),
       e_category = None, e_original_target = None, e_hard_landing = False \<rparr>"

definition plain_event :: "line \<Rightarrow> event_type \<Rightarrow> event" where
  "plain_event l ty =
     \<lparr> e_time = line_ts l, e_type = ty, e_target = None, e_damage = None,
       e_altitude = m_POS l, e_time_raw = Some (line_t l),
       e_category = None, e_original_target = None, e_hard_landing = False \<rparr>"

text \<open>The branch \<open>"AType:2" in ln\<close>.\<close>

definition on_damage :: "stats \<Rightarrow> line \<Rightarrow> stats" where
  "on_damage s l =
     (let a = int_field (m_AID l); tgt = int_field (m_TID l); dmg = float_field (m_DMG l);
          s1 = add_hit s a tgt dmg (line_ts l);
          s2 = (if player_plid s1 = Some tgt \<and> dmg > 0
                then s1\<lparr>total_aircraft_damage := fadd (total_aircraft_damage s1) dmg,
                        events := events s1 @ [damage_event s1 l a dmg ''aircraft'']\<rparr>
                else s1);
          s3 = (if in_pid_id s2 tgt \<and> dmg > 0
                then s2\<lparr>total_pilot_damage := fadd (total_pilot_damage s2) dmg,
                        events := events s2 @ [damage_event s2 l a dmg ''pilot'']\<rparr>
                else s2)
      in if fl 0.01 < total_pilot_damage s3 then s3\<lparr>wounded := True\<rparr> else s3)"

text \<open>\<open>if obj and altitude is not None: obj.altitude = altitude\<close>\<close>

definition set_altitude :: "stats \<Rightarrow> int \<Rightarrow> int option \<Rightarrow> stats" where
  "set_altitude s tid altitude =
     (case objects s tid of
        None \<Rightarrow> s
      | Some obj \<Rightarrow>
          (case altitude of
             None \<Rightarrow> s
           | Some alt \<Rightarrow> s\<lparr>objects := (objects s)(tid \<mapsto> obj\<lparr>o_altitude := Some alt\<rparr>)\<rparr>))"

definition hits_on :: "stats \<Rightarrow> int \<Rightarrow> hit list" where
  "hits_on s tid = filter (\<lambda>h. h_target h = tid) (hits s)"

definition total_damage :: "stats \<Rightarrow> int \<Rightarrow> rat" where
  "total_damage s tid = py_sum (map h_damage (hits_on s tid))"

definition player_damage :: "stats \<Rightarrow> int \<Rightarrow> rat" where
  "player_damage s tid =
     py_sum (map h_damage (filter (\<lambda>h. in_pid_plid s (h_attacker h)) (hits_on s tid)))"

text \<open>\<open>total > 0 and player / total >= 0.8\<close>\<close>

definition share_ok :: "stats \<Rightarrow> int \<Rightarrow> bool" where
  "share_ok s tid =
     (0 < total_damage s tid \<and> fl 0.8 \<le> fdiv (player_damage s tid) (total_damage s tid))"

definition resolve_indirect_kill :: "stats \<Rightarrow> int \<Rightarrow> hhmmss \<Rightarrow> int option \<Rightarrow> stats" where
  "resolve_indirect_kill s tid ts pos_match =
     (if share_ok s tid then add_kill (set_altitude s tid pos_match) tid ts else s)"

text \<open>
  \<open>destroyed\<close> is a dictionary: assigning to a key it has keeps the key's place, a new key
  goes to the end, and \<open>items()\<close> runs in that order.
\<close>

type_synonym destroyed = "(int \<times> hhmmss \<times> int option) list"

fun dict_set :: "('k \<times> 'v) list \<Rightarrow> 'k \<Rightarrow> 'v \<Rightarrow> ('k \<times> 'v) list" where
  "dict_set [] k v = [(k, v)]"
| "dict_set ((k', v') # kvs) k v =
     (if k' = k then (k, v) # kvs else (k', v') # dict_set kvs k v)"

text \<open>The branch \<open>"AType:3" in ln\<close>, after \<open>destroyed[tgt] = (ts, altitude)\<close>.\<close>

definition on_destroy :: "stats \<Rightarrow> line \<Rightarrow> stats" where
  "on_destroy s l =
     (let a = int_field (m_AID l); tgt = int_field (m_TID l); altitude = m_POS l
      in if (case objects s tgt of Some obj \<Rightarrow> o_category obj = ''Excluded'' | None \<Rightarrow> False)
         then s
         else if in_pid_plid s a then add_kill (set_altitude s tgt altitude) tgt (line_ts l)
         else if a = - 1 then resolve_indirect_kill s tgt (line_ts l) altitude
         else s)"

text \<open>The branch \<open>"AType:5" in ln\<close>.\<close>

definition on_takeoff :: "stats \<Rightarrow> line \<Rightarrow> stats" where
  "on_takeoff s l =
     (let pid = int_field (m_PID l)
      in if in_pid_plid s pid \<and> \<not> truthy (takeoff_time s)
         then s\<lparr>takeoff_time := Some (line_t l),
                events := events s @ [plain_event l Takeoff]\<rparr>
         else s)"

text \<open>The branch \<open>"AType:18" in ln\<close>.\<close>

definition on_separation :: "stats \<Rightarrow> line \<Rightarrow> stats" where
  "on_separation s l =
     (let botid = int_field (m_BOTID l); parentid = int_field (m_PARENTID l)
      in if truthy (player_pid s) \<and> truthy (player_plid s)
            \<and> player_pid s = Some botid \<and> player_plid s = Some parentid
         then s\<lparr>pilot_separation_time := Some (line_t l)\<rparr>
         else s)"

definition with_wounded :: "stats \<Rightarrow> string \<Rightarrow> string" where
  "with_wounded s label = (if wounded s then label @ '' (Wounded)'' else label)"

text \<open>
  The branch \<open>"AType:6" in ln or "AType:7" in ln\<close>. The three outcomes set
  \<open>crashed\<close>, \<open>landed\<close>, \<open>final_state\<close> and choose the type of the appended event.
\<close>

definition set_bailout :: "stats \<Rightarrow> stats \<times> event_type" where
  "set_bailout s =
     (s\<lparr>crashed := False, landed := False, final_state := with_wounded s ''Bailout''\<rparr>, Bailout)"

definition set_crashed :: "stats \<Rightarrow> stats \<times> event_type" where
  "set_crashed s = (s\<lparr>crashed := True, final_state := with_wounded s ''Crashed''\<rparr>, Crash)"

definition set_landed :: "stats \<Rightarrow> stats \<times> event_type" where
  "set_landed s = (s\<lparr>landed := True, final_state := with_wounded s ''Landed''\<rparr>, Landing)"

definition crash_or_landing :: "stats \<Rightarrow> line \<Rightarrow> stats \<times> event_type" where
  "crash_or_landing s l = (if has_AType7 l then set_crashed s else set_landed s)"

definition on_landing :: "stats \<Rightarrow> line \<Rightarrow> stats" where
  "on_landing s l =
     (let pid = int_field (m_PID l); t = line_t l
      in if in_pid_plid s pid \<and> \<not> truthy (landing_time s)
         then (let s1 = s\<lparr>landing_time := Some t\<rparr>;
                   (s2, event_type) =
                     (case pilot_separation_time s1 of
                        None \<Rightarrow> crash_or_landing s1 l
                      | Some separation \<Rightarrow>
                          if separation \<noteq> 0
                          then (let time_since_separation = t - separation
                                in if time_since_separation > 2000 then set_bailout s1
                                   else crash_or_landing s1 l)
                          else crash_or_landing s1 l)
               in s2\<lparr>events := events s2 @ [plain_event l event_type]\<rparr>)
         else s)"

definition process_line :: "stats \<times> destroyed \<Rightarrow> line \<Rightarrow> stats \<times> destroyed" where
  "process_line sd l =
     (let s = fst sd; d = snd sd
      in if has_AType2 l then (on_damage s l, d)
         else if has_AType3 l
           then (on_destroy s l, dict_set d (int_field (m_TID l)) (line_ts l, m_POS l))
         else if has_AType5 l then (on_takeoff s l, d)
         else if has_AType18 l then (on_separation s l, d)
         else if has_AType6 l \<or> has_AType7 l then (on_landing s l, d)
         else (s, d))"

definition collect_events :: "stats \<Rightarrow> line list \<Rightarrow> stats \<times> destroyed" where
  "collect_events s lines = foldl process_line (s, []) lines"

subsection \<open>\<open>parse\<close>: retroactive proportional kills, bail-out, flight duration\<close>

text \<open>One round of the loop over \<open>destroyed.items()\<close>.\<close>

definition retro_step :: "stats \<Rightarrow> int \<times> hhmmss \<times> int option \<Rightarrow> stats" where
  "retro_step s item =
     (let tid = fst item; altitude = snd (snd item); hs = hits_on s tid
      in if hs = [] then s
         else if share_ok s tid then
           (if \<forall>k \<in> set (kills s). k \<noteq> tid
            then add_kill (set_altitude s tid altitude) tid (h_time (last hs))
            else s)
         else s)"

definition retroactive_kills :: "stats \<Rightarrow> destroyed \<Rightarrow> stats" where
  "retroactive_kills s d = foldl retro_step s d"

definition detect_bailout :: "stats \<Rightarrow> line list \<Rightarrow> stats" where
  "detect_bailout s lines =
     (let parachute_found = list_ex (\<lambda>l. has_AType13 l \<and> has_Paratrooper l) lines
      in if parachute_found \<and> \<not> crashed s \<and> \<not> landed s
         then s\<lparr>final_state := with_wounded s ''Bailed Out''\<rparr>
         else s)"

text \<open>
  The class has no method \<open>_format_time\<close>, so the call \<open>self._format_time(end_time)\<close>
  raises \<open>AttributeError\<close>. \<open>KeyError\<close> is what \<open>evt['target']\<close> raises in
  \<open>_detect_landing_damage\<close> for an event without that key.
\<close>

datatype error = AttributeError | KeyError

text \<open>\<open>max((e.get('time_raw', 0) for e in events), default=d)\<close>\<close>

definition max_time_raw :: "event list \<Rightarrow> int \<Rightarrow> int" where
  "max_time_raw evs d =
     (case map (\<lambda>e. case e_time_raw e of Some r \<Rightarrow> r | None \<Rightarrow> 0) evs of
        [] \<Rightarrow> d
      | r # rs \<Rightarrow> fold max rs r)"

text \<open>\<open>if end_time: ... self.stats.flight_duration = f"{h:02}:{m:02}:{s:02}"\<close>\<close>

definition set_duration :: "stats \<Rightarrow> int option \<Rightarrow> int \<Rightarrow> stats" where
  "set_duration s end_time takeoff =
     (case end_time of
        None \<Rightarrow> s
      | Some e \<Rightarrow>
          if e \<noteq> 0 then s\<lparr>flight_duration := Some (mission_time_to_hhmmss (e - takeoff))\<rparr>
          else s)"

definition compute_flight_duration :: "stats \<Rightarrow> error + stats" where
  "compute_flight_duration s =
     (case takeoff_time s of
        None \<Rightarrow> Inr s
      | Some takeoff \<Rightarrow>
          if takeoff = 0 then Inr s
          else if \<not> truthy (landing_time s) \<and> events s \<noteq> [] then
            (let end_time = max_time_raw (events s) takeoff
             in if end_time > takeoff then Inl AttributeError
                else Inr (set_duration s (Some end_time) takeoff))
          else Inr (set_duration s (landing_time s) takeoff))"

text \<open>The state before flight duration is computed: everything \<open>parse\<close> does up to there.\<close>

definition before_duration :: "category_config \<Rightarrow> string list \<Rightarrow> line list \<Rightarrow> stats" where
  "before_duration cc ec lines =
     (let s0 = register_objects cc ec MissionStats lines;
          sd = collect_events s0 lines;
          s2 = retroactive_kills (fst sd) (snd sd)
      in detect_bailout s2 lines)"

definition parse :: "category_config \<Rightarrow> string list \<Rightarrow> line list \<Rightarrow> error + stats" where
  "parse cc ec lines = compute_flight_duration (before_duration cc ec lines)"

subsection \<open>\<open>to_json\<close>: kill counts and kill events\<close>

definition valid :: "game_object \<Rightarrow> bool" where
  "valid k = (\<not> list_ex (\<lambda>x. contains x (lower (o_type k))) [''botpilot'', ''botgunner''])"

text \<open>The objects the list \<open>self.stats.kills\<close> refers to, then \<open>kills\<close> as \<open>to_json\<close> filters it.\<close>

definition kill_objects :: "stats \<Rightarrow> game_object list" where
  "kill_objects s = List.map_filter (objects s) (kills s)"

definition json_kills :: "stats \<Rightarrow> game_object list" where
  "json_kills s = filter valid (kill_objects s)"

definition air_kills_all :: "stats \<Rightarrow> game_object list" where
  "air_kills_all s = filter (\<lambda>k. o_category k = ''Air'') (json_kills s)"

definition air_kills :: "stats \<Rightarrow> nat" where
  "air_kills s = length (air_kills_all s)"

definition air_kills_flying :: "stats \<Rightarrow> nat" where
  "air_kills_flying s = length (filter (\<lambda>k. \<not> o_is_static k) (air_kills_all s))"

definition air_kills_parked :: "stats \<Rightarrow> nat" where
  "air_kills_parked s = length (filter (\<lambda>k. o_is_static k) (air_kills_all s))"

definition ground_kills :: "stats \<Rightarrow> nat" where
  "ground_kills s =
     length (filter (\<lambda>k. o_category k \<in> set [''Ground'', ''Building'']) (json_kills s))"

definition naval_kills :: "stats \<Rightarrow> nat" where
  "naval_kills s = length (filter (\<lambda>k. o_category k = ''Naval'') (json_kills s))"

definition kill_event :: "game_object \<Rightarrow> hhmmss \<Rightarrow> event" where
  "kill_event k ts =
     \<lparr> e_time = ts, e_type = Kill, e_target = Some (o_type k), e_damage = None,
       e_altitude = o_altitude k, e_time_raw = None,
       e_category = Some (o_category k), e_original_target = None,
       e_hard_landing = False \<rparr>"

definition kill_events :: "stats \<Rightarrow> event list" where
  "kill_events s =
     List.map_filter (\<lambda>k. map_option (kill_event k) (o_time_of_kill k)) (json_kills s)"

subsection \<open>\<open>_detect_landing_damage\<close>\<close>









subsection \<open>Notions used in the statements\<close>

text \<open>
  A damage line that targets the pilot id and carries damage; the running total of
  these damages as the program forms it, from 0.0 with each addition rounded; and the
  sum of the decimal fractions as the log spells them.
\<close>

definition targets_pilot :: "stats \<Rightarrow> line \<Rightarrow> bool" where
  "targets_pilot s l =
     (has_AType2 l \<and> player_pid s = Some (int_field (m_TID l)) \<and> 0 < float_field (m_DMG l))"

definition pilot_damage_total :: "stats \<Rightarrow> line list \<Rightarrow> rat" where
  "pilot_damage_total s ls =
     foldl fadd 0 (map (\<lambda>l. float_field (m_DMG l)) (filter (targets_pilot s) ls))"

definition exact_pilot_damage :: "stats \<Rightarrow> line list \<Rightarrow> rat" where
  "exact_pilot_damage s ls =
     sum_list (map (\<lambda>l. case m_DMG l of Some v \<Rightarrow> v | None \<Rightarrow> 0)
                 (filter (targets_pilot s) ls))"



text \<open>The category and the kill time stored for an object id.\<close>

definition category_of :: "stats \<Rightarrow> int \<Rightarrow> string option" where
  "category_of s k = map_option o_category (objects s k)"

text \<open>A target that \<open>add_kill\<close> accepts: registered, and not of category Excluded.\<close>

definition creditable :: "stats \<Rightarrow> int \<Rightarrow> bool" where
  "creditable s k = (case category_of s k of None \<Rightarrow> False | Some c \<Rightarrow> c \<noteq> ''Excluded'')"

definition kill_time :: "stats \<Rightarrow> int \<Rightarrow> hhmmss option" where
  "kill_time s k = (case objects s k of None \<Rightarrow> None | Some obj \<Rightarrow> o_time_of_kill obj)"

definition kills_inv :: "stats \<Rightarrow> bool" where
  "kills_inv s = (distinct (kills s) \<and> (\<forall>k \<in> set (kills s). creditable s k))"

subsection \<open>Example log lines\<close>

text \<open>
  Lines of a mission report, as the searches of \<open>parse\<close> read them. \<open>blank_line\<close> has no
  marker and no labelled field.
  \<^item> \<open>player_line plid pid\<close>:
    \<^verbatim>\<open>T:0 AType:10 PLID:plid PID:pid NAME:Player TYPE:Il-2 mod.1942 COUNTRY:101 ISPL:1\<close>
  \<^item> \<open>object_line i ty\<close>: \<^verbatim>\<open>T:0 AType:12 ID:i TYPE:ty COUNTRY:201 NAME:obj\<close>
  \<^item> \<open>damage_line t d a tid\<close>: \<^verbatim>\<open>T:t AType:2 DMG:d AID:a TID:tid\<close>
  \<^item> \<open>destroy_line t a tid\<close>: \<^verbatim>\<open>T:t AType:3 AID:a TID:tid\<close>
\<close>

definition blank_line :: line where
  "blank_line =
     \<lparr> has_AType10 = False, has_ISPL1 = False, has_AType12 = False, has_AType2 = False,
       has_AType3 = False, has_AType5 = False, has_AType18 = False, has_AType6 = False,
       has_AType7 = False, has_AType13 = False, has_Paratrooper = False,
       m_PLID = None, m_PID_digits = None, m_NAME = None, m_TYPE_COUNTRY = None,
       m_TYPE = None, m_AID_digits = None, m_COUNTRY = None, m_ID = None, m_T = None,
       m_AID = None, m_TID = None, m_DMG = None, m_POS = None, m_PID = None,
       m_BOTID = None, m_PARENTID = None \<rparr>"

definition first_digits :: "int list \<Rightarrow> nat option" where
  "first_digits vs = map_option nat (find (\<lambda>v. 0 \<le> v) vs)"

definition player_line :: "nat \<Rightarrow> nat \<Rightarrow> line" where
  "player_line plid pid =
     blank_line\<lparr>has_AType10 := True, has_ISPL1 := True, m_T := Some 0,
       m_PLID := Some plid, m_PID_digits := Some pid, m_PID := Some (int pid),
       m_ID := Some plid, m_NAME := Some ''Player'',
       m_TYPE_COUNTRY := Some ''Il-2 mod.1942'', m_TYPE := Some ''Il-2'',
       m_COUNTRY := Some ''101''\<rparr>"

definition object_line :: "nat \<Rightarrow> string \<Rightarrow> line" where
  "object_line i ty =
     blank_line\<lparr>has_AType12 := True, m_T := Some 0, m_ID := Some i, m_NAME := Some ''obj'',
       m_TYPE_COUNTRY := Some ty, m_TYPE := Some ty, m_COUNTRY := Some ''201''\<rparr>"

definition damage_line :: "nat \<Rightarrow> rat \<Rightarrow> int \<Rightarrow> int \<Rightarrow> line" where
  "damage_line t d a tid =
     blank_line\<lparr>has_AType2 := True, m_T := Some t, m_DMG := Some d,
       m_AID := Some a, m_TID := Some tid,
       m_AID_digits := first_digits [a], m_ID := first_digits [a, tid]\<rparr>"

definition destroy_line :: "nat \<Rightarrow> int \<Rightarrow> int \<Rightarrow> line" where
  "destroy_line t a tid =
     blank_line\<lparr>has_AType3 := True, m_T := Some t, m_AID := Some a, m_TID := Some tid,
       m_AID_digits := first_digits [a], m_ID := first_digits [a, tid]\<rparr>"

text \<open>
  Pilot 1 in aircraft 2 takes pilot damage 0.005, then 0.006, then a hit of no damage.
\<close>

definition wounded_log :: "line list" where
  "wounded_log =
     [player_line 2 1, damage_line 100 0.005 7 1, damage_line 200 0.006 7 1,
      damage_line 300 0 7 1]"

text \<open>
  Pilot 1 takes 0.004, 0.005 and 0.001; and a player line with \<open>PID:0\<close> followed by a hit
  of 0.5 on aircraft 2.
\<close>

definition rounding_wounded_log :: "line list" where
  "rounding_wounded_log =
     [player_line 2 1, damage_line 100 0.004 7 1, damage_line 200 0.005 7 1,
      damage_line 300 0.001 7 1]"

definition pid0_log :: "line list" where
  "pid0_log = [player_line 2 0, damage_line 100 0.5 7 2]"

text \<open>
  \<^item> \<open>no_pid_player_line plid\<close>: the player's line without a \<open>PID\<close> field,
    \<^verbatim>\<open>T:0 AType:10 PLID:plid NAME:Player TYPE:Il-2 mod.1942 COUNTRY:101 ISPL:1\<close>
  The logs below have pilot 1 in aircraft 2 (or no pilot id) and a target 5.
\<close>

definition no_pid_player_line :: "nat \<Rightarrow> line" where
  "no_pid_player_line plid = (player_line plid 0)\<lparr>m_PID_digits := None, m_PID := None\<rparr>"

definition direct_log :: "line list" where
  "direct_log =
     [player_line 2 1, object_line 5 ''bf109'', damage_line 50 1 2 5, destroy_line 100 2 5]"




definition rounding_share_log :: "line list" where
  "rounding_share_log =
     [player_line 2 1, object_line 5 ''bf109'', damage_line 50 0.04 2 5,
      damage_line 60 0.01 9 5, destroy_line 100 (- 1) 5]"

definition excluded_log :: "line list" where
  "excluded_log =
     [player_line 2 1, object_line 5 ''fake_block'', object_line 6 ''bf109'',
      damage_line 50 1 2 5, destroy_line 100 2 5, destroy_line 120 (- 1) 5,
      destroy_line 130 2 6]"

definition sentinel_log :: "line list" where
  "sentinel_log = [no_pid_player_line 2, object_line 5 ''bf109'', destroy_line 100 (- 1) 5]"

definition sentinel_excluded_log :: "line list" where
  "sentinel_excluded_log =
     [no_pid_player_line 2, object_line 5 ''fake_block'', destroy_line 100 (- 1) 5]"

text \<open>
  \<^item> \<open>takeoff_line t pid alt\<close>: \<^verbatim>\<open>T:t AType:5 PID:pid POS(x,alt,z)\<close>
  \<^item> \<open>landing_line t pid alt\<close>: \<^verbatim>\<open>T:t AType:6 PID:pid POS(x,alt,z)\<close>
  \<^item> \<open>crash_line t pid alt\<close>: \<^verbatim>\<open>T:t AType:7 PID:pid POS(x,alt,z)\<close>
  \<^item> \<open>separation_line t botid parentid\<close>: \<^verbatim>\<open>T:t AType:18 BOTID:botid PARENTID:parentid\<close>
\<close>

definition takeoff_line :: "nat \<Rightarrow> int \<Rightarrow> int \<Rightarrow> line" where
  "takeoff_line t pid alt =
     blank_line\<lparr>has_AType5 := True, m_T := Some t, m_PID := Some pid,
       m_PID_digits := first_digits [pid], m_ID := first_digits [pid], m_POS := Some alt\<rparr>"

definition landing_line :: "nat \<Rightarrow> int \<Rightarrow> int \<Rightarrow> line" where
  "landing_line t pid alt =
     blank_line\<lparr>has_AType6 := True, m_T := Some t, m_PID := Some pid,
       m_PID_digits := first_digits [pid], m_ID := first_digits [pid], m_POS := Some alt\<rparr>"

definition crash_line :: "nat \<Rightarrow> int \<Rightarrow> int \<Rightarrow> line" where
  "crash_line t pid alt =
     blank_line\<lparr>has_AType7 := True, m_T := Some t, m_PID := Some pid,
       m_PID_digits := first_digits [pid], m_ID := first_digits [pid], m_POS := Some alt\<rparr>"

definition separation_line :: "nat \<Rightarrow> int \<Rightarrow> int \<Rightarrow> line" where
  "separation_line t botid parentid =
     blank_line\<lparr>has_AType18 := True, m_T := Some t, m_BOTID := Some botid,
       m_PARENTID := Some parentid, m_ID := first_digits [botid, parentid]\<rparr>"

definition no_landing_log :: "line list" where
  "no_landing_log = [player_line 2 1, takeoff_line 1000 1 120, damage_line 2000 0.1 7 2]"

definition tick0_log :: "line list" where
  "tick0_log = [player_line 2 1, landing_line 0 1 100, crash_line 500 1 90]"

subsection \<open>The classification as the specification words it\<close>

text \<open>
  The classification as C5 words it: the tag is lower-cased and trimmed, the static-object
  marker and the bracketed suffix are both taken off, then exclusion by substring and
  exact match follow.
\<close>

definition classify_as_claimed :: "category_config \<Rightarrow> string list \<Rightarrow> string \<Rightarrow> string" where
  "classify_as_claimed category_config exclude_config type_tag =
     (let s0 = strip (lower type_tag);
          s = (if startswith s0 ''static_''
               then split_first_bracket (drop (length ''static_'') s0) else s0)
      in if list_ex (\<lambda>x. contains x s) exclude_config then ''Excluded''
         else (case find (\<lambda>(cat, keywords). s \<in> set (map lower keywords)) category_config of
                 Some (cat, keywords) \<Rightarrow> cat
               | None \<Rightarrow> ''Unknown''))"

text \<open>The tag \<open>classify_type\<close> matches against.\<close>

definition match_tag :: "string \<Rightarrow> string" where
  "match_tag type_tag =
     (let s0 = strip (lower type_tag)
      in if startswith s0 ''static_'' \<and> CHR ''['' \<in> set s0
         then takeWhile (\<lambda>c. c \<noteq> CHR ''['') s0 else s0)"

definition example_categories :: category_config where
  "example_categories =
     [(''Air'', [''il2'', ''Static_IL2'', ''bf109'']), (''Ground'', [''flak'', ''truck''])]"

subsection \<open>Notions used in the statement on landing damage\<close>












section \<open>Properties\<close>

subsection \<open>Time texts\<close>

text \<open>
  The three fields of \<open>mission_time_to_hhmmss\<close> in integer arithmetic, at 50 ticks a
  second.
\<close>

lemma mission_time_to_hhmmss_div:
  "mission_time_to_hhmmss t = (t div 180000, (t mod 180000) div 3000, (t mod 3000) div 50)"
proof -
  have a: "\<lfloor>(of_int t :: rat) / 50 / 3600\<rfloor> = t div 180000"
    using floor_divide_of_int_eq [of t 180000, where ?'a = rat] by simp
  have b: "\<lfloor>(of_int t :: rat) / 50 / 60\<rfloor> = t div 3000"
    using floor_divide_of_int_eq [of t 3000, where ?'a = rat] by simp
  have "t mod 180000 = t - 180000 * (t div 180000)"
    by (simp add: minus_mult_div_eq_mod)
  then have "(of_int (t mod 180000) :: rat) = of_int t - 180000 * of_int (t div 180000)"
    by simp
  then have c: "(of_int t :: rat) / 50 - 3600 * of_int (t div 180000)
                  = of_int (t mod 180000) / 50"
    by simp
  have "t mod 3000 = t - 3000 * (t div 3000)"
    by (simp add: minus_mult_div_eq_mod)
  then have "(of_int (t mod 3000) :: rat) = of_int t - 3000 * of_int (t div 3000)"
    by simp
  then have d: "(of_int t :: rat) / 50 - 60 * of_int (t div 3000) = of_int (t mod 3000) / 50"
    by simp
  have e: "\<lfloor>(of_int (t mod 180000) :: rat) / 50 / 60\<rfloor> = (t mod 180000) div 3000"
    using floor_divide_of_int_eq [of "t mod 180000" 3000, where ?'a = rat] by simp
  have f: "\<lfloor>(of_int (t mod 3000) :: rat) / 50\<rfloor> = (t mod 3000) div 50"
    using floor_divide_of_int_eq [of "t mod 3000" 50, where ?'a = rat] by simp
  show ?thesis
    unfolding mission_time_to_hhmmss_def floordiv_def pymod_def Let_def
    by (simp only: a b c d e f floor_of_int)
qed

subsection \<open>The state fields each step leaves alone\<close>

lemma add_kill_frame [simp]:
  "player_pid (add_kill s t ts) = player_pid s"
  "player_plid (add_kill s t ts) = player_plid s"
  "player_id (add_kill s t ts) = player_id s"
  "hits (add_kill s t ts) = hits s"
  "events (add_kill s t ts) = events s"
  "wounded (add_kill s t ts) = wounded s"
  "total_pilot_damage (add_kill s t ts) = total_pilot_damage s"
  "landed (add_kill s t ts) = landed s"
  "crashed (add_kill s t ts) = crashed s"
  "final_state (add_kill s t ts) = final_state s"
  "pilot_separation_time (add_kill s t ts) = pilot_separation_time s"
  "takeoff_time (add_kill s t ts) = takeoff_time s"
  "landing_time (add_kill s t ts) = landing_time s"
  by (simp_all add: add_kill_def split: option.splits)

lemma set_altitude_frame [simp]:
  "player_pid (set_altitude s t a) = player_pid s"
  "player_plid (set_altitude s t a) = player_plid s"
  "player_id (set_altitude s t a) = player_id s"
  "hits (set_altitude s t a) = hits s"
  "kills (set_altitude s t a) = kills s"
  "events (set_altitude s t a) = events s"
  "wounded (set_altitude s t a) = wounded s"
  "total_pilot_damage (set_altitude s t a) = total_pilot_damage s"
  "landed (set_altitude s t a) = landed s"
  "crashed (set_altitude s t a) = crashed s"
  "final_state (set_altitude s t a) = final_state s"
  "pilot_separation_time (set_altitude s t a) = pilot_separation_time s"
  "takeoff_time (set_altitude s t a) = takeoff_time s"
  "landing_time (set_altitude s t a) = landing_time s"
  by (simp_all add: set_altitude_def split: option.splits)

lemma on_destroy_frame [simp]:
  "player_pid (on_destroy s l) = player_pid s"
  "player_plid (on_destroy s l) = player_plid s"
  "player_id (on_destroy s l) = player_id s"
  "hits (on_destroy s l) = hits s"
  "events (on_destroy s l) = events s"
  "wounded (on_destroy s l) = wounded s"
  "total_pilot_damage (on_destroy s l) = total_pilot_damage s"
  "landed (on_destroy s l) = landed s"
  "crashed (on_destroy s l) = crashed s"
  "final_state (on_destroy s l) = final_state s"
  "pilot_separation_time (on_destroy s l) = pilot_separation_time s"
  "takeoff_time (on_destroy s l) = takeoff_time s"
  "landing_time (on_destroy s l) = landing_time s"
  by (simp_all add: on_destroy_def resolve_indirect_kill_def Let_def)

lemma on_takeoff_frame [simp]:
  "player_pid (on_takeoff s l) = player_pid s"
  "player_plid (on_takeoff s l) = player_plid s"
  "player_id (on_takeoff s l) = player_id s"
  "hits (on_takeoff s l) = hits s"
  "kills (on_takeoff s l) = kills s"
  "objects (on_takeoff s l) = objects s"
  "wounded (on_takeoff s l) = wounded s"
  "total_pilot_damage (on_takeoff s l) = total_pilot_damage s"
  "landed (on_takeoff s l) = landed s"
  "crashed (on_takeoff s l) = crashed s"
  "final_state (on_takeoff s l) = final_state s"
  "pilot_separation_time (on_takeoff s l) = pilot_separation_time s"
  "landing_time (on_takeoff s l) = landing_time s"
  by (simp_all add: on_takeoff_def Let_def)

lemma on_separation_frame [simp]:
  "player_pid (on_separation s l) = player_pid s"
  "player_plid (on_separation s l) = player_plid s"
  "player_id (on_separation s l) = player_id s"
  "hits (on_separation s l) = hits s"
  "kills (on_separation s l) = kills s"
  "objects (on_separation s l) = objects s"
  "events (on_separation s l) = events s"
  "wounded (on_separation s l) = wounded s"
  "total_pilot_damage (on_separation s l) = total_pilot_damage s"
  "landed (on_separation s l) = landed s"
  "crashed (on_separation s l) = crashed s"
  "final_state (on_separation s l) = final_state s"
  "takeoff_time (on_separation s l) = takeoff_time s"
  "landing_time (on_separation s l) = landing_time s"
  by (simp_all add: on_separation_def Let_def)

lemmas outcome_defs =
  set_bailout_def set_crashed_def set_landed_def crash_or_landing_def with_wounded_def

lemma on_landing_frame [simp]:
  "player_pid (on_landing s l) = player_pid s"
  "player_plid (on_landing s l) = player_plid s"
  "player_id (on_landing s l) = player_id s"
  "hits (on_landing s l) = hits s"
  "kills (on_landing s l) = kills s"
  "objects (on_landing s l) = objects s"
  "wounded (on_landing s l) = wounded s"
  "total_pilot_damage (on_landing s l) = total_pilot_damage s"
  "pilot_separation_time (on_landing s l) = pilot_separation_time s"
  "takeoff_time (on_landing s l) = takeoff_time s"
  by (simp_all add: on_landing_def outcome_defs Let_def split: option.splits prod.splits)

lemma on_damage_frame [simp]:
  "player_pid (on_damage s l) = player_pid s"
  "player_plid (on_damage s l) = player_plid s"
  "player_id (on_damage s l) = player_id s"
  "kills (on_damage s l) = kills s"
  "objects (on_damage s l) = objects s"
  "landed (on_damage s l) = landed s"
  "crashed (on_damage s l) = crashed s"
  "final_state (on_damage s l) = final_state s"
  "pilot_separation_time (on_damage s l) = pilot_separation_time s"
  "takeoff_time (on_damage s l) = takeoff_time s"
  "landing_time (on_damage s l) = landing_time s"
  by (simp_all add: on_damage_def add_hit_def Let_def)

lemma process_line_ids [simp]:
  "player_pid (fst (process_line sd l)) = player_pid (fst sd)"
  "player_plid (fst (process_line sd l)) = player_plid (fst sd)"
  "player_id (fst (process_line sd l)) = player_id (fst sd)"
  by (simp_all add: process_line_def Let_def)

lemma foldl_process_line_ids [simp]:
  "player_pid (fst (foldl process_line sd ls)) = player_pid (fst sd)"
  "player_plid (fst (foldl process_line sd ls)) = player_plid (fst sd)"
  "player_id (fst (foldl process_line sd ls)) = player_id (fst sd)"
  by (induction ls arbitrary: sd) simp_all

lemma collect_events_ids [simp]:
  "player_pid (fst (collect_events s ls)) = player_pid s"
  "player_plid (fst (collect_events s ls)) = player_plid s"
  "player_id (fst (collect_events s ls)) = player_id s"
  by (simp_all add: collect_events_def)

lemma collect_events_snoc:
  "collect_events s (ls @ [l]) = process_line (collect_events s ls) l"
  by (simp add: collect_events_def)

lemma collect_events_Nil [simp]: "collect_events s [] = (s, [])"
  by (simp add: collect_events_def)

subsection \<open>The pilot damage total and the wounded flag\<close>

lemma on_damage_total_pilot_damage:
  "total_pilot_damage (on_damage s l) =
     (if in_pid_id s (int_field (m_TID l)) \<and> 0 < float_field (m_DMG l)
      then fadd (total_pilot_damage s) (float_field (m_DMG l))
      else total_pilot_damage s)"
  by (simp add: on_damage_def add_hit_def in_pid_id_def Let_def)

lemma on_damage_wounded:
  "wounded (on_damage s l) = (wounded s \<or> fl 0.01 < total_pilot_damage (on_damage s l))"
  by (simp add: on_damage_def add_hit_def in_pid_id_def Let_def)

lemma process_line_total_pilot_damage:
  assumes "player_id (fst sd) = player_pid (fst sd)"
  shows "total_pilot_damage (fst (process_line sd l)) =
           (if targets_pilot (fst sd) l
            then fadd (total_pilot_damage (fst sd)) (float_field (m_DMG l))
            else total_pilot_damage (fst sd))"
  using assms
  by (auto simp: process_line_def Let_def targets_pilot_def on_damage_total_pilot_damage
      in_pid_id_def)

lemma process_line_wounded:
  "wounded (fst (process_line sd l)) =
     (wounded (fst sd)
      \<or> (has_AType2 l \<and> fl 0.01 < total_pilot_damage (fst (process_line sd l))))"
  by (simp add: process_line_def Let_def on_damage_wounded)

lemma process_line_wounded_mono:
  "wounded (fst sd) \<Longrightarrow> wounded (fst (process_line sd l))"
  by (simp add: process_line_wounded)

lemma foldl_process_line_wounded_mono:
  "wounded (fst sd) \<Longrightarrow> wounded (fst (foldl process_line sd ls))"
  by (induction ls arbitrary: sd) (simp_all add: process_line_wounded_mono)

lemma targets_pilot_ids:
  assumes "player_pid s' = player_pid s"
  shows "targets_pilot s' = targets_pilot s"
  by (rule ext) (simp add: targets_pilot_def assms)

lemma pilot_damage_total_snoc:
  "pilot_damage_total s (ls @ [l]) =
     (if targets_pilot s l then fadd (pilot_damage_total s ls) (float_field (m_DMG l))
      else pilot_damage_total s ls)"
  by (simp add: pilot_damage_total_def)

lemma pilot_damage_total_Nil [simp]: "pilot_damage_total s [] = 0"
  by (simp add: pilot_damage_total_def)

lemma threshold_above_zero: "\<not> fl 0.01 < 0"
  by code_simp

text \<open>
  With \<open>player_id\<close> equal to \<open>player_pid\<close>, the field \<open>total_pilot_damage\<close> is the running
  total of the damage lines that target the pilot id.
\<close>

lemma collect_events_total_pilot_damage:
  assumes "player_id s0 = player_pid s0" and "total_pilot_damage s0 = 0"
  shows "total_pilot_damage (fst (collect_events s0 ls)) = pilot_damage_total s0 ls"
proof (induction ls rule: rev_induct)
  case Nil
  then show ?case by (simp add: assms)
next
  case (snoc l ls)
  have ids: "player_id (fst (collect_events s0 ls)) = player_pid (fst (collect_events s0 ls))"
    using assms(1) by simp
  have tp: "targets_pilot (fst (collect_events s0 ls)) = targets_pilot s0"
    by (rule targets_pilot_ids) simp
  show ?case
    using snoc.IH
    by (simp add: collect_events_snoc process_line_total_pilot_damage [OF ids] tp
        pilot_damage_total_snoc)
qed

lemma collect_events_wounded:
  assumes "player_id s0 = player_pid s0" and "total_pilot_damage s0 = 0" and "\<not> wounded s0"
  shows "wounded (fst (collect_events s0 ls))
           = (\<exists>m \<le> length ls. fl 0.01 < pilot_damage_total s0 (take m ls))"
proof (induction ls rule: rev_induct)
  case Nil
  then show ?case using threshold_above_zero by (simp add: assms)
next
  case (snoc l ls)
  let ?T = "pilot_damage_total s0"
  have tot: "total_pilot_damage (fst (collect_events s0 (ls @ [l]))) = ?T (ls @ [l])"
    by (rule collect_events_total_pilot_damage [OF assms(1,2)])
  have w: "wounded (fst (collect_events s0 (ls @ [l])))
             = (wounded (fst (collect_events s0 ls)) \<or> (has_AType2 l \<and> fl 0.01 < ?T (ls @ [l])))"
    using process_line_wounded [of "collect_events s0 ls" l] tot
    by (simp add: collect_events_snoc)
  have same: "?T (ls @ [l]) = ?T ls" if "\<not> has_AType2 l"
    using that by (simp add: pilot_damage_total_snoc targets_pilot_def)
  have split: "(\<exists>m \<le> length (ls @ [l]). fl 0.01 < ?T (take m (ls @ [l])))
                 = ((\<exists>m \<le> length ls. fl 0.01 < ?T (take m ls)) \<or> fl 0.01 < ?T (ls @ [l]))"
  proof
    assume "\<exists>m \<le> length (ls @ [l]). fl 0.01 < ?T (take m (ls @ [l]))"
    then obtain m where m: "m \<le> length (ls @ [l])" "fl 0.01 < ?T (take m (ls @ [l]))"
      by blast
    show "(\<exists>m \<le> length ls. fl 0.01 < ?T (take m ls)) \<or> fl 0.01 < ?T (ls @ [l])"
    proof (cases "m \<le> length ls")
      case True
      then have "take m (ls @ [l]) = take m ls" by simp
      then show ?thesis using m True by auto
    next
      case False
      then have "take m (ls @ [l]) = ls @ [l]" using m(1) by simp
      then show ?thesis using m by simp
    qed
  next
    assume "(\<exists>m \<le> length ls. fl 0.01 < ?T (take m ls)) \<or> fl 0.01 < ?T (ls @ [l])"
    then show "\<exists>m \<le> length (ls @ [l]). fl 0.01 < ?T (take m (ls @ [l]))"
    proof
      assume "\<exists>m \<le> length ls. fl 0.01 < ?T (take m ls)"
      then obtain m where "m \<le> length ls" "fl 0.01 < ?T (take m ls)" by blast
      then have "m \<le> length (ls @ [l])" "fl 0.01 < ?T (take m (ls @ [l]))" by simp_all
      then show ?thesis by blast
    next
      assume "fl 0.01 < ?T (ls @ [l])"
      then have "fl 0.01 < ?T (take (length (ls @ [l])) (ls @ [l]))" by simp
      then show ?thesis by blast
    qed
  qed
  have last: "(\<exists>m \<le> length ls. fl 0.01 < ?T (take m ls))" if "fl 0.01 < ?T ls"
  proof -
    have "fl 0.01 < ?T (take (length ls) ls)" using that by simp
    then show ?thesis by blast
  qed
  show ?case
    unfolding w split snoc.IH
    using same last by (cases "has_AType2 l") auto
qed

lemma register_line_frame [simp]:
  "wounded (register_line cc ec s l) = wounded s"
  "total_pilot_damage (register_line cc ec s l) = total_pilot_damage s"
  "kills (register_line cc ec s l) = kills s"
  "hits (register_line cc ec s l) = hits s"
  "events (register_line cc ec s l) = events s"
  "landing_time (register_line cc ec s l) = landing_time s"
  "takeoff_time (register_line cc ec s l) = takeoff_time s"
  "pilot_separation_time (register_line cc ec s l) = pilot_separation_time s"
  "final_state (register_line cc ec s l) = final_state s"
  "landed (register_line cc ec s l) = landed s"
  "crashed (register_line cc ec s l) = crashed s"
  by (simp_all add: register_line_def add_object_def Let_def)

lemma register_objects_frame [simp]:
  "wounded (register_objects cc ec s ls) = wounded s"
  "total_pilot_damage (register_objects cc ec s ls) = total_pilot_damage s"
  "kills (register_objects cc ec s ls) = kills s"
  "hits (register_objects cc ec s ls) = hits s"
  "events (register_objects cc ec s ls) = events s"
  "landing_time (register_objects cc ec s ls) = landing_time s"
  "takeoff_time (register_objects cc ec s ls) = takeoff_time s"
  "pilot_separation_time (register_objects cc ec s ls) = pilot_separation_time s"
  "final_state (register_objects cc ec s ls) = final_state s"
  "landed (register_objects cc ec s ls) = landed s"
  "crashed (register_objects cc ec s ls) = crashed s"
  unfolding register_objects_def by (induction ls arbitrary: s) simp_all

lemma retro_step_frame [simp]:
  "player_pid (retro_step s i) = player_pid s"
  "player_plid (retro_step s i) = player_plid s"
  "player_id (retro_step s i) = player_id s"
  "hits (retro_step s i) = hits s"
  "events (retro_step s i) = events s"
  "wounded (retro_step s i) = wounded s"
  "total_pilot_damage (retro_step s i) = total_pilot_damage s"
  "landed (retro_step s i) = landed s"
  "crashed (retro_step s i) = crashed s"
  "final_state (retro_step s i) = final_state s"
  "pilot_separation_time (retro_step s i) = pilot_separation_time s"
  "takeoff_time (retro_step s i) = takeoff_time s"
  "landing_time (retro_step s i) = landing_time s"
  by (simp_all add: retro_step_def Let_def)

lemma retroactive_kills_frame [simp]:
  "player_pid (retroactive_kills s d) = player_pid s"
  "player_plid (retroactive_kills s d) = player_plid s"
  "player_id (retroactive_kills s d) = player_id s"
  "hits (retroactive_kills s d) = hits s"
  "events (retroactive_kills s d) = events s"
  "wounded (retroactive_kills s d) = wounded s"
  "total_pilot_damage (retroactive_kills s d) = total_pilot_damage s"
  "landed (retroactive_kills s d) = landed s"
  "crashed (retroactive_kills s d) = crashed s"
  "final_state (retroactive_kills s d) = final_state s"
  "pilot_separation_time (retroactive_kills s d) = pilot_separation_time s"
  "takeoff_time (retroactive_kills s d) = takeoff_time s"
  "landing_time (retroactive_kills s d) = landing_time s"
  unfolding retroactive_kills_def by (induction d arbitrary: s) simp_all

lemma detect_bailout_frame [simp]:
  "player_pid (detect_bailout s ls) = player_pid s"
  "player_plid (detect_bailout s ls) = player_plid s"
  "player_id (detect_bailout s ls) = player_id s"
  "hits (detect_bailout s ls) = hits s"
  "kills (detect_bailout s ls) = kills s"
  "objects (detect_bailout s ls) = objects s"
  "events (detect_bailout s ls) = events s"
  "wounded (detect_bailout s ls) = wounded s"
  "total_pilot_damage (detect_bailout s ls) = total_pilot_damage s"
  "landed (detect_bailout s ls) = landed s"
  "crashed (detect_bailout s ls) = crashed s"
  "pilot_separation_time (detect_bailout s ls) = pilot_separation_time s"
  "takeoff_time (detect_bailout s ls) = takeoff_time s"
  "landing_time (detect_bailout s ls) = landing_time s"
  by (simp_all add: detect_bailout_def Let_def)

subsection \<open>The kill list\<close>

lemma category_of_add_kill [simp]: "category_of (add_kill s t ts) = category_of s"
  by (rule ext) (simp add: category_of_def add_kill_def split: option.splits)

lemma category_of_set_altitude [simp]: "category_of (set_altitude s t a) = category_of s"
  by (rule ext) (simp add: category_of_def set_altitude_def split: option.splits)

lemma creditable_add_kill [simp]: "creditable (add_kill s t ts) = creditable s"
  by (rule ext) (simp add: creditable_def)

lemma creditable_set_altitude [simp]: "creditable (set_altitude s t a) = creditable s"
  by (rule ext) (simp add: creditable_def)

lemma kills_add_kill:
  "kills (add_kill s t ts) =
     (if creditable s t \<and> t \<notin> set (kills s) then kills s @ [t] else kills s)"
  by (simp add: add_kill_def creditable_def category_of_def split: option.splits)

lemma kill_time_add_kill:
  "kill_time (add_kill s t ts) k =
     (if creditable s t \<and> k = t then Some ts else kill_time s k)"
  by (simp add: add_kill_def creditable_def category_of_def kill_time_def split: option.splits)

lemma kill_time_set_altitude [simp]: "kill_time (set_altitude s t a) = kill_time s"
  by (rule ext) (simp add: kill_time_def set_altitude_def split: option.splits)

lemma hits_on_frame:
  "hits s' = hits s \<Longrightarrow> hits_on s' = hits_on s"
  by (rule ext) (simp add: hits_on_def)

lemma share_ok_frame:
  "hits s' = hits s \<Longrightarrow> player_pid s' = player_pid s \<Longrightarrow> player_plid s' = player_plid s \<Longrightarrow>
   share_ok s' tid = share_ok s tid"
  by (simp add: share_ok_def total_damage_def player_damage_def hits_on_def in_pid_plid_def)

text \<open>What one destroy line does to the kill list.\<close>

lemma kills_on_destroy:
  "kills (on_destroy s l) =
     (let a = int_field (m_AID l); tgt = int_field (m_TID l)
      in if creditable s tgt \<and> tgt \<notin> set (kills s)
            \<and> (in_pid_plid s a \<or> (a = - 1 \<and> share_ok s tgt))
         then kills s @ [tgt] else kills s)"
  by (auto simp: on_destroy_def resolve_indirect_kill_def Let_def kills_add_kill
      creditable_def category_of_def split: option.splits)

lemma creditable_on_destroy [simp]: "creditable (on_destroy s l) = creditable s"
  by (simp add: on_destroy_def resolve_indirect_kill_def Let_def)

lemma kills_retro_step:
  "kills (retro_step s item) =
     (if creditable s (fst item) \<and> fst item \<notin> set (kills s) \<and> share_ok s (fst item)
           \<and> hits_on s (fst item) \<noteq> []
      then kills s @ [fst item] else kills s)"
  by (auto simp: retro_step_def Let_def kills_add_kill)

lemma creditable_retro_step [simp]: "creditable (retro_step s item) = creditable s"
  by (simp add: retro_step_def Let_def)

lemma category_of_on_destroy [simp]: "category_of (on_destroy s l) = category_of s"
  by (simp add: on_destroy_def resolve_indirect_kill_def Let_def)

lemma category_of_retro_step [simp]: "category_of (retro_step s item) = category_of s"
  by (simp add: retro_step_def Let_def)

lemma category_of_unchanged [simp]:
  "category_of (on_damage s l) = category_of s"
  "category_of (on_takeoff s l) = category_of s"
  "category_of (on_separation s l) = category_of s"
  "category_of (on_landing s l) = category_of s"
  "category_of (detect_bailout s ls) = category_of s"
  by (rule ext, simp add: category_of_def)+

lemma category_of_process_line [simp]:
  "category_of (fst (process_line sd l)) = category_of (fst sd)"
  by (simp add: process_line_def Let_def)

lemma creditable_process_line [simp]:
  "creditable (fst (process_line sd l)) = creditable (fst sd)"
  by (rule ext) (simp add: creditable_def)

lemma creditable_detect_bailout [simp]: "creditable (detect_bailout s ls) = creditable s"
  by (rule ext) (simp add: creditable_def)

lemma kills_process_line:
  "kills (fst (process_line sd l)) =
     (if has_AType3 l \<and> \<not> has_AType2 l then kills (on_destroy (fst sd) l) else kills (fst sd))"
  by (simp add: process_line_def Let_def)

lemma kills_inv_on_destroy: "kills_inv s \<Longrightarrow> kills_inv (on_destroy s l)"
  by (simp add: kills_inv_def kills_on_destroy Let_def)

lemma kills_inv_process_line: "kills_inv (fst sd) \<Longrightarrow> kills_inv (fst (process_line sd l))"
  using kills_inv_on_destroy [of "fst sd" l]
  by (simp add: kills_inv_def kills_process_line)

lemma kills_inv_foldl_process_line:
  "kills_inv (fst sd) \<Longrightarrow> kills_inv (fst (foldl process_line sd ls))"
  by (induction ls arbitrary: sd) (simp_all add: kills_inv_process_line)

lemma kills_inv_retro_step: "kills_inv s \<Longrightarrow> kills_inv (retro_step s item)"
  by (simp add: kills_inv_def kills_retro_step)

lemma kills_inv_retroactive_kills: "kills_inv s \<Longrightarrow> kills_inv (retroactive_kills s d)"
  unfolding retroactive_kills_def
  by (induction d arbitrary: s) (simp_all add: kills_inv_retro_step)

lemma kills_inv_detect_bailout: "kills_inv s \<Longrightarrow> kills_inv (detect_bailout s ls)"
  by (simp add: kills_inv_def)

lemma kills_inv_registered: "kills_inv (register_objects cc ec MissionStats ls)"
  by (simp add: kills_inv_def MissionStats_def)

lemma kills_inv_collect_events:
  "kills_inv (fst (collect_events (register_objects cc ec MissionStats ls) ms))"
  unfolding collect_events_def
  by (rule kills_inv_foldl_process_line) (simp add: kills_inv_registered)

lemma kills_inv_before_duration: "kills_inv (before_duration cc ec ls)"
  unfolding before_duration_def Let_def
  by (intro kills_inv_detect_bailout kills_inv_retroactive_kills kills_inv_collect_events)

text \<open>The kill list only grows.\<close>

lemma kills_mono_process_line: "set (kills (fst sd)) \<subseteq> set (kills (fst (process_line sd l)))"
  by (auto simp: kills_process_line kills_on_destroy Let_def)

lemma kills_mono_foldl: "set (kills (fst sd)) \<subseteq> set (kills (fst (foldl process_line sd ls)))"
proof (induction ls arbitrary: sd)
  case Nil
  then show ?case by simp
next
  case (Cons l ls)
  show ?case
    using kills_mono_process_line [of sd l] Cons.IH [of "process_line sd l"] by auto
qed

lemma kills_mono_retro: "set (kills s) \<subseteq> set (kills (retroactive_kills s d))"
  unfolding retroactive_kills_def
proof (induction d arbitrary: s)
  case Nil
  then show ?case by simp
next
  case (Cons item d)
  have "set (kills s) \<subseteq> set (kills (retro_step s item))"
    by (auto simp: kills_retro_step)
  then show ?case using Cons.IH [of "retro_step s item"] by auto
qed

lemma compute_flight_duration_frame:
  assumes "compute_flight_duration s = Inr s'"
  shows "wounded s' = wounded s" and "kills s' = kills s" and "objects s' = objects s"
    and "hits s' = hits s" and "final_state s' = final_state s"
    and "landed s' = landed s" and "crashed s' = crashed s"
  using assms
  by (auto simp: compute_flight_duration_def set_duration_def Let_def
      split: option.splits if_splits)

section \<open>The claims\<close>

subsection \<open>C8: the wounded flag\<close>

text \<open>
  C8 as stated fails for the sum of the damage fractions: the program adds them as
  floats. In \<open>rounding_wounded_log\<close> the pilot takes 0.004, 0.005 and 0.001, which sum to
  exactly 0.01 and do not exceed it; the rounded total is above the float 0.01 and the
  flag is set.
\<close>

theorem wounded_at_exact_threshold_counterexample:
  "exact_pilot_damage (register_objects [] [] MissionStats rounding_wounded_log)
       rounding_wounded_log = 0.01
   \<and> \<not> 0.01 < exact_pilot_damage (register_objects [] [] MissionStats rounding_wounded_log)
              rounding_wounded_log
   \<and> wounded (before_duration [] [] rounding_wounded_log)"
  by code_simp

text \<open>
  C8, amended. Once the flag is true it stays true: after \<open>m\<close> lines true, it is true after
  any \<open>n \<ge> m\<close> lines, in the state before the flight duration is computed, and in the
  state \<open>parse\<close> returns. When
  \<open>player_id\<close> is the pilot id (the player line's PID is not 0), the flag is true after \<open>n\<close>
  lines exactly when, at some point \<open>m \<le> n\<close>, the running float total of the damage of the
  damage lines that target the pilot id exceeded the float 0.01; the later passes do not
  change it, so the state \<open>parse\<close> returns carries the same flag.
\<close>

theorem wounded_when_total_exceeds:
  "(\<forall>m n. m \<le> n
        \<and> wounded (fst (collect_events (register_objects cc ec MissionStats lines) (take m lines)))
      \<longrightarrow> wounded (fst (collect_events (register_objects cc ec MissionStats lines) (take n lines))))
   \<and> (\<forall>m. wounded (fst (collect_events (register_objects cc ec MissionStats lines) (take m lines)))
      \<longrightarrow> wounded (before_duration cc ec lines))
   \<and> (\<forall>m s. parse cc ec lines = Inr s
        \<and> wounded (fst (collect_events (register_objects cc ec MissionStats lines) (take m lines)))
      \<longrightarrow> wounded s)
   \<and> (player_id (register_objects cc ec MissionStats lines)
         = player_pid (register_objects cc ec MissionStats lines)
      \<longrightarrow> (\<forall>n. wounded (fst (collect_events (register_objects cc ec MissionStats lines)
                              (take n lines)))
               = (\<exists>m \<le> n. fl 0.01 < pilot_damage_total
                                       (register_objects cc ec MissionStats lines) (take m lines)))
        \<and> wounded (before_duration cc ec lines)
            = (\<exists>m. fl 0.01 < pilot_damage_total
                                (register_objects cc ec MissionStats lines) (take m lines))
        \<and> (\<forall>s. parse cc ec lines = Inr s
             \<longrightarrow> wounded s
                 = (\<exists>m. fl 0.01 < pilot_damage_total
                                     (register_objects cc ec MissionStats lines) (take m lines))))"
proof -
  define s0 where "s0 = register_objects cc ec MissionStats lines"
  let ?W = "\<lambda>n. wounded (fst (collect_events s0 (take n lines)))"
  let ?X = "\<lambda>m. fl 0.01 < pilot_damage_total s0 (take m lines)"
  have init: "total_pilot_damage s0 = 0" "\<not> wounded s0"
    by (simp_all add: s0_def MissionStats_def)
  have mono: "?W n" if "m \<le> n" "?W m" for m n
  proof -
    have "take n lines = take m lines @ take (n - m) (drop m lines)"
      using that(1) by (metis le_add_diff_inverse take_add)
    then have "collect_events s0 (take n lines)
                 = foldl process_line (collect_events s0 (take m lines))
                     (take (n - m) (drop m lines))"
      by (simp add: collect_events_def)
    then show ?thesis
      using that(2) by (simp add: foldl_process_line_wounded_mono)
  qed
  have fin: "wounded (before_duration cc ec lines) = ?W (length lines)"
    by (simp add: before_duration_def Let_def s0_def)
  have stick: "wounded (before_duration cc ec lines)" if "?W m" for m
  proof (cases "m \<le> length lines")
    case True
    then show ?thesis using mono [OF True that] fin by simp
  next
    case False
    then have "take m lines = take (length lines) lines" by simp
    then show ?thesis using that fin by simp
  qed
  have ret: "wounded s = wounded (before_duration cc ec lines)"
    if "parse cc ec lines = Inr s" for s
    using that compute_flight_duration_frame(1) by (simp add: parse_def)
  have iff: "?W n = (\<exists>m \<le> n. ?X m)" if ids: "player_id s0 = player_pid s0" for n
  proof -
    have w: "?W n = (\<exists>m \<le> length (take n lines).
                       fl 0.01 < pilot_damage_total s0 (take m (take n lines)))"
      by (rule collect_events_wounded [OF ids init])
    show ?thesis
      unfolding w
    proof
      assume "\<exists>m \<le> length (take n lines). fl 0.01 < pilot_damage_total s0 (take m (take n lines))"
      then obtain m where m: "m \<le> length (take n lines)"
        "fl 0.01 < pilot_damage_total s0 (take m (take n lines))"
        by blast
      then have "m \<le> n" by simp
      moreover have "take m (take n lines) = take m lines"
        using \<open>m \<le> n\<close> by (simp add: min_def)
      ultimately show "\<exists>m \<le> n. ?X m" using m(2) by auto
    next
      assume "\<exists>m \<le> n. ?X m"
      then obtain m where m: "m \<le> n" "?X m" by blast
      define k where "k = min m (length lines)"
      have k1: "k \<le> length (take n lines)"
        using m(1) by (simp add: k_def)
      have "take k lines = take m lines"
        by (simp add: k_def min_def)
      moreover have "take k (take n lines) = take k lines"
        using m(1) by (simp add: k_def min_def)
      ultimately have "fl 0.01 < pilot_damage_total s0 (take k (take n lines))"
        using m(2) by simp
      then show "\<exists>m \<le> length (take n lines).
                   fl 0.01 < pilot_damage_total s0 (take m (take n lines))"
        using k1 by blast
    qed
  qed
  have all: "wounded (before_duration cc ec lines) = (\<exists>m. ?X m)"
    if ids: "player_id s0 = player_pid s0"
  proof
    assume "wounded (before_duration cc ec lines)"
    then have "?W (length lines)" using fin by simp
    then have "\<exists>m \<le> length lines. ?X m" using iff [OF ids, of "length lines"] by simp
    then show "\<exists>m. ?X m" by blast
  next
    assume "\<exists>m. ?X m"
    then obtain m where "?X m" by blast
    then have "?W m" using iff [OF ids, of m] by auto
    then show "wounded (before_duration cc ec lines)" by (rule stick)
  qed
  have fin_stick: "wounded s"
    if "parse cc ec lines = Inr s" "?W m" for m s
    using ret [OF that(1)] stick [OF that(2)] by simp
  show ?thesis
    using mono stick fin_stick iff all ret unfolding s0_def by (intro conjI allI impI) auto
qed

text \<open>
  Witness: in \<open>wounded_log\<close> pilot 1 takes 0.005, then 0.006, then a hit of no damage; the
  flag is false after the first hit, true after the second and the third, and true in the
  state \<open>parse\<close> returns.
\<close>

theorem wounded_when_total_exceeds_witness:
  "\<not> wounded (fst (collect_events (register_objects [] [] MissionStats wounded_log)
                   (take 2 wounded_log)))
   \<and> wounded (fst (collect_events (register_objects [] [] MissionStats wounded_log)
                   (take 3 wounded_log)))
   \<and> wounded (fst (collect_events (register_objects [] [] MissionStats wounded_log)
                   (take 4 wounded_log)))
   \<and> wounded (before_duration [] [] wounded_log)
   \<and> (case parse [] [] wounded_log of Inr s \<Rightarrow> wounded s | Inl e \<Rightarrow> False)"
proof -
  note t = wounded_when_total_exceeds [of "[]" "[]" wounded_log]
  have ids: "player_id (register_objects [] [] MissionStats wounded_log)
               = player_pid (register_objects [] [] MissionStats wounded_log)"
    by code_simp
  have x3: "fl 0.01 < pilot_damage_total (register_objects [] [] MissionStats wounded_log)
                        (take 3 wounded_log)"
    by code_simp
  have n2: "\<not> wounded (fst (collect_events (register_objects [] [] MissionStats wounded_log)
                   (take 2 wounded_log)))"
    by code_simp
  have "\<exists>m \<le> (3::nat). fl 0.01 < pilot_damage_total
                  (register_objects [] [] MissionStats wounded_log) (take m wounded_log)"
    using x3 by blast
  then have w3: "wounded (fst (collect_events (register_objects [] [] MissionStats wounded_log)
                   (take 3 wounded_log)))"
    using t ids by blast
  have le: "(3::nat) \<le> 4" by simp
  have w4: "wounded (fst (collect_events (register_objects [] [] MissionStats wounded_log)
                   (take 4 wounded_log)))"
    using t le w3 by blast
  have wf: "wounded (before_duration [] [] wounded_log)"
    using t w3 by blast
  have "case parse [] [] wounded_log of Inr s \<Rightarrow> True | Inl e \<Rightarrow> False"
    by code_simp
  then obtain s where ps: "parse [] [] wounded_log = Inr s"
    by (cases "parse [] [] wounded_log") auto
  have "wounded s"
    using t ps w3 by blast
  then have wp: "case parse [] [] wounded_log of Inr s \<Rightarrow> wounded s | Inl e \<Rightarrow> False"
    using ps by simp
  show ?thesis
    using n2 w3 w4 wf wp by (intro conjI)
qed

text \<open>
  When the player line has \<open>PID:0\<close>, \<open>player_id\<close> is the aircraft id: in \<open>pid0_log\<close> a hit on
  aircraft 2 sets the flag although no line targets the pilot id.
\<close>

lemma aircraft_hit_wounds_when_pid_is_0:
  "player_pid (before_duration [] [] pid0_log) = Some 0
   \<and> player_id (before_duration [] [] pid0_log) = Some 2
   \<and> filter (targets_pilot (register_objects [] [] MissionStats pid0_log)) pid0_log = []
   \<and> wounded (before_duration [] [] pid0_log)"
  by code_simp

subsection \<open>The retroactive pass and the destroy branch\<close>




lemma share_ok_retro_step [simp]: "share_ok (retro_step s item) tid = share_ok s tid"
  by (rule share_ok_frame) simp_all

lemma hits_on_retro_step [simp]: "hits_on (retro_step s item) = hits_on s"
  by (rule hits_on_frame) simp


lemma retro_step_credited: "fst item \<in> set (kills s) \<Longrightarrow> retro_step s item = s"
  by (auto simp: retro_step_def Let_def)


lemma retroactive_kills_Nil [simp]: "retroactive_kills s [] = s"
  by (simp add: retroactive_kills_def)





lemma kill_time_on_destroy:
  "kill_time (on_destroy s l) tid =
     (let a = int_field (m_AID l); tgt = int_field (m_TID l)
      in if creditable s tgt \<and> tid = tgt \<and> (in_pid_plid s a \<or> (a = - 1 \<and> share_ok s tgt))
         then Some (line_ts l) else kill_time s tid)"
  by (auto simp: on_destroy_def resolve_indirect_kill_def Let_def kill_time_add_kill
      creditable_def category_of_def split: option.splits)

lemma process_line_destroy:
  "has_AType3 l \<Longrightarrow> \<not> has_AType2 l \<Longrightarrow> fst (process_line (s, d) l) = on_destroy s l"
  by (simp add: process_line_def)

lemma kill_objects_creditable:
  "kills_inv s \<Longrightarrow> obj \<in> set (kill_objects s) \<Longrightarrow> o_category obj \<noteq> ''Excluded''"
  by (auto simp: kill_objects_def List.map_filter_def kills_inv_def creditable_def category_of_def
      split: option.splits)

lemma json_kills_subset: "set (json_kills s) \<subseteq> set (kill_objects s)"
  by (auto simp: json_kills_def)

lemma kill_objects_frame:
  "kills s' = kills s \<Longrightarrow> objects s' = objects s \<Longrightarrow> kill_objects s' = kill_objects s"
  by (simp add: kill_objects_def)

lemma on_destroy_excluded:
  "category_of s (int_field (m_TID l)) = Some ''Excluded'' \<Longrightarrow> on_destroy s l = s"
  by (auto simp: on_destroy_def Let_def category_of_def split: option.splits)

lemma add_kill_excluded: "category_of s tid = Some ''Excluded'' \<Longrightarrow> add_kill s tid ts = s"
  by (auto simp: add_kill_def category_of_def split: option.splits)

lemma retro_step_excluded:
  "category_of s (fst item) = Some ''Excluded'' \<Longrightarrow> kills (retro_step s item) = kills s"
  by (simp add: kills_retro_step creditable_def)

lemma creditable_foldl_process_line [simp]:
  "creditable (fst (foldl process_line sd ls)) = creditable (fst sd)"
  by (induction ls arbitrary: sd) simp_all

lemma collect_events_append:
  "collect_events s (pre @ l # post)
     = foldl process_line (process_line (collect_events s pre) l) post"
  by (simp add: collect_events_def)

lemma kills_before_duration:
  "kills (before_duration cc ec lines)
     = kills (retroactive_kills
         (fst (collect_events (register_objects cc ec MissionStats lines) lines))
         (snd (collect_events (register_objects cc ec MissionStats lines) lines)))"
  by (simp add: before_duration_def Let_def)

lemma player_pid_register_line:
  "has_AType10 l \<Longrightarrow> has_ISPL1 l \<Longrightarrow>
   player_pid (register_line cc ec s l) = Some (int_field (map_option int (m_PID_digits l)))"
  by (simp add: register_line_def add_object_def Let_def)

subsection \<open>C6: no target is credited twice\<close>

text \<open>
  C6. At every point of the run the credited-kill list has no target twice: after any
  number of lines of the event loop, after any number of rounds of the retroactive pass,
  in the state before the flight duration is computed and in the state \<open>parse\<close> returns.
  A destroy line whose attacker is one of the player's ids credits a registered target
  that is not Excluded at once, and the retroactive pass leaves a state unchanged at a
  target that is already in the list, whatever its damage share.
\<close>

theorem kills_never_duplicated:
  "(\<forall>n. distinct (kills (fst (collect_events (register_objects cc ec MissionStats lines)
                                (take n lines)))))
   \<and> (\<forall>n. distinct (kills (retroactive_kills
                 (fst (collect_events (register_objects cc ec MissionStats lines) lines))
                 (take n (snd (collect_events (register_objects cc ec MissionStats lines) lines))))))
   \<and> distinct (kills (before_duration cc ec lines))
   \<and> (\<forall>s. parse cc ec lines = Inr s \<longrightarrow> distinct (kills s))
   \<and> (\<forall>s l. in_pid_plid s (int_field (m_AID l)) \<and> creditable s (int_field (m_TID l))
        \<longrightarrow> int_field (m_TID l) \<in> set (kills (on_destroy s l)))
   \<and> (\<forall>s item. fst item \<in> set (kills s) \<longrightarrow> retro_step s item = s)"
proof -
  have a: "distinct (kills (fst (collect_events (register_objects cc ec MissionStats lines) ms)))"
    for ms
    using kills_inv_collect_events [of cc ec lines ms] by (simp add: kills_inv_def)
  have b: "distinct (kills (retroactive_kills
             (fst (collect_events (register_objects cc ec MissionStats lines) lines)) d))" for d
    using kills_inv_retroactive_kills [OF kills_inv_collect_events [of cc ec lines lines], of d]
    by (simp add: kills_inv_def)
  have c: "distinct (kills (before_duration cc ec lines))"
    using kills_inv_before_duration [of cc ec lines] by (simp add: kills_inv_def)
  have d: "distinct (kills s)" if "parse cc ec lines = Inr s" for s
    using that c compute_flight_duration_frame(2) by (simp add: parse_def)
  have e: "int_field (m_TID l) \<in> set (kills (on_destroy s l))"
    if "in_pid_plid s (int_field (m_AID l))" "creditable s (int_field (m_TID l))" for s l
    using that by (simp add: kills_on_destroy Let_def)
  show ?thesis
    using a b c d e retro_step_credited by blast
qed

text \<open>
  Witness: in \<open>direct_log\<close> the player's aircraft deals all the damage to target 5 and
  destroys it; the direct branch credits it, and the retroactive round for it changes
  nothing although the share qualifies.
\<close>

theorem kills_never_duplicated_witness:
  "distinct (kills (before_duration [] [] direct_log))
   \<and> 5 \<in> set (kills (on_destroy
          (fst (collect_events (register_objects [] [] MissionStats direct_log) (take 3 direct_log)))
          (destroy_line 100 2 5)))
   \<and> retro_step (fst (collect_events (register_objects [] [] MissionStats direct_log) direct_log))
         (5, (0, 0, 2), None)
       = fst (collect_events (register_objects [] [] MissionStats direct_log) direct_log)
   \<and> share_ok (fst (collect_events (register_objects [] [] MissionStats direct_log) direct_log)) 5"
proof -
  note t = kills_never_duplicated [of "[]" "[]" direct_log]
  have h1: "in_pid_plid
              (fst (collect_events (register_objects [] [] MissionStats direct_log) (take 3 direct_log)))
              (int_field (m_AID (destroy_line 100 2 5)))"
    by code_simp
  have h2: "creditable
              (fst (collect_events (register_objects [] [] MissionStats direct_log) (take 3 direct_log)))
              (int_field (m_TID (destroy_line 100 2 5)))"
    by code_simp
  have h3: "int_field (m_TID (destroy_line 100 2 5)) = 5"
    by code_simp
  have h4: "fst (5, (0, 0, 2), None)
              \<in> set (kills (fst (collect_events (register_objects [] [] MissionStats direct_log)
                                    direct_log)))"
    by code_simp
  have h5: "share_ok (fst (collect_events (register_objects [] [] MissionStats direct_log) direct_log)) 5"
    by code_simp
  from t h1 h2 have "int_field (m_TID (destroy_line 100 2 5)) \<in> set (kills (on_destroy
          (fst (collect_events (register_objects [] [] MissionStats direct_log) (take 3 direct_log)))
          (destroy_line 100 2 5)))"
    by blast
  moreover from t h4 have "retro_step (fst (collect_events (register_objects [] [] MissionStats direct_log) direct_log))
         (5, (0, 0, 2), None)
       = fst (collect_events (register_objects [] [] MissionStats direct_log) direct_log)"
    by blast
  ultimately show ?thesis
    using t h3 h5 by simp
qed

subsection \<open>C7: Excluded objects are never credited\<close>

text \<open>
  C7. An object of category Excluded is never in the credited-kill list, at any point of
  the event loop, before the flight duration is computed or in the returned state, so it
  is in none of the lists \<open>to_json\<close> counts. A destroy line that targets it leaves the
  state unchanged (direct or indirect), \<open>add_kill\<close> ignores it, and the retroactive round
  for it adds nothing.
\<close>

theorem excluded_never_credited:
  "(\<forall>n. \<forall>obj \<in> set (kill_objects (fst (collect_events
              (register_objects cc ec MissionStats lines) (take n lines)))).
        o_category obj \<noteq> ''Excluded'')
   \<and> (\<forall>obj \<in> set (kill_objects (before_duration cc ec lines)). o_category obj \<noteq> ''Excluded'')
   \<and> (\<forall>s. parse cc ec lines = Inr s
        \<longrightarrow> (\<forall>obj \<in> set (kill_objects s). o_category obj \<noteq> ''Excluded'')
          \<and> (\<forall>obj \<in> set (json_kills s). o_category obj \<noteq> ''Excluded''))
   \<and> (\<forall>s l. category_of s (int_field (m_TID l)) = Some ''Excluded'' \<longrightarrow> on_destroy s l = s)
   \<and> (\<forall>s tid ts. category_of s tid = Some ''Excluded'' \<longrightarrow> add_kill s tid ts = s)
   \<and> (\<forall>s item. category_of s (fst item) = Some ''Excluded''
        \<longrightarrow> kills (retro_step s item) = kills s)"
proof -
  have a: "\<forall>obj \<in> set (kill_objects (fst (collect_events
              (register_objects cc ec MissionStats lines) ms))). o_category obj \<noteq> ''Excluded''"
    for ms
    using kill_objects_creditable [OF kills_inv_collect_events [of cc ec lines ms]] by blast
  have b: "\<forall>obj \<in> set (kill_objects (before_duration cc ec lines)). o_category obj \<noteq> ''Excluded''"
    using kill_objects_creditable [OF kills_inv_before_duration [of cc ec lines]] by blast
  have c: "(\<forall>obj \<in> set (kill_objects s). o_category obj \<noteq> ''Excluded'')
          \<and> (\<forall>obj \<in> set (json_kills s). o_category obj \<noteq> ''Excluded'')"
    if "parse cc ec lines = Inr s" for s
  proof -
    have "compute_flight_duration (before_duration cc ec lines) = Inr s"
      using that by (simp add: parse_def)
    then have "kill_objects s = kill_objects (before_duration cc ec lines)"
      by (intro kill_objects_frame compute_flight_duration_frame)
    then show ?thesis
      using b json_kills_subset [of s] by auto
  qed
  show ?thesis
    using a b c on_destroy_excluded add_kill_excluded retro_step_excluded by blast
qed

text \<open>
  Witness: in \<open>excluded_log\<close> target 5 is Excluded, takes all its damage from the player
  and is destroyed twice (by the player, and by attacker \<open>-1\<close>); only target 6 is credited.
\<close>

theorem excluded_never_credited_witness:
  "o_category (hd (kill_objects (before_duration [] [''fake_block''] excluded_log))) \<noteq> ''Excluded''
   \<and> map o_id (kill_objects (before_duration [] [''fake_block''] excluded_log)) = [6]
   \<and> on_destroy
        (fst (collect_events (register_objects [] [''fake_block''] MissionStats excluded_log)
                (take 4 excluded_log)))
        (destroy_line 100 2 5)
       = fst (collect_events (register_objects [] [''fake_block''] MissionStats excluded_log)
                (take 4 excluded_log))
   \<and> share_ok
        (fst (collect_events (register_objects [] [''fake_block''] MissionStats excluded_log)
                (take 4 excluded_log))) 5"
proof -
  note t = excluded_never_credited [of "[]" "[''fake_block'']" excluded_log]
  have h1: "hd (kill_objects (before_duration [] [''fake_block''] excluded_log))
              \<in> set (kill_objects (before_duration [] [''fake_block''] excluded_log))"
    by code_simp
  have h2: "map o_id (kill_objects (before_duration [] [''fake_block''] excluded_log)) = [6]"
    by code_simp
  have h3: "category_of
              (fst (collect_events (register_objects [] [''fake_block''] MissionStats excluded_log)
                      (take 4 excluded_log)))
              (int_field (m_TID (destroy_line 100 2 5))) = Some ''Excluded''"
    by code_simp
  have h4: "share_ok
        (fst (collect_events (register_objects [] [''fake_block''] MissionStats excluded_log)
                (take 4 excluded_log))) 5"
    by code_simp
  from t h1 have "o_category (hd (kill_objects (before_duration [] [''fake_block''] excluded_log)))
                    \<noteq> ''Excluded''"
    by blast
  moreover from t h3 have "on_destroy
        (fst (collect_events (register_objects [] [''fake_block''] MissionStats excluded_log)
                (take 4 excluded_log)))
        (destroy_line 100 2 5)
       = fst (collect_events (register_objects [] [''fake_block''] MissionStats excluded_log)
                (take 4 excluded_log))"
    by blast
  ultimately show ?thesis
    using h2 h4 by simp
qed

subsection \<open>C10: a player line without PID\<close>

text \<open>
  C10 as stated fails for a target of category Excluded (and for an unregistered one):
  the destroy line with attacker \<open>-1\<close> credits nothing there, although the pilot id is
  the sentinel \<open>-1\<close>.
\<close>

theorem sentinel_pid_excluded_counterexample:
  "player_pid (before_duration [] [''fake_block''] sentinel_excluded_log) = Some (- 1)
   \<and> int_field (m_AID (sentinel_excluded_log ! 2)) = - 1
   \<and> has_AType3 (sentinel_excluded_log ! 2)
   \<and> int_field (m_TID (sentinel_excluded_log ! 2)) = 5
   \<and> category_of (before_duration [] [''fake_block''] sentinel_excluded_log) 5 = Some ''Excluded''
   \<and> kills (before_duration [] [''fake_block''] sentinel_excluded_log) = []"
  by code_simp

text \<open>
  C10, amended. A player line without a \<open>PID\<close> field stores \<open>-1\<close> as \<open>player_pid\<close>. From
  then on a destroy line whose attacker id is \<open>-1\<close> and whose target is registered and not
  Excluded takes the direct branch: the step is \<open>add_kill\<close> at the destroy line's own
  time, whatever the recorded hits are, and the target is in the kill list of the final
  state.
\<close>

theorem sentinel_pid_direct_credit:
  "(has_AType10 l0 \<and> has_ISPL1 l0 \<and> m_PID_digits l0 = None
      \<longrightarrow> player_pid (register_line cc ec s0 l0) = Some (- 1))
   \<and> (player_pid s = Some (- 1) \<and> has_AType3 l \<and> \<not> has_AType2 l
       \<and> int_field (m_AID l) = - 1 \<and> creditable s (int_field (m_TID l))
      \<longrightarrow> fst (process_line (s, d) l)
            = add_kill (set_altitude s (int_field (m_TID l)) (m_POS l)) (int_field (m_TID l))
                (line_ts l)
          \<and> int_field (m_TID l) \<in> set (kills (fst (process_line (s, d) l)))
          \<and> kill_time (fst (process_line (s, d) l)) (int_field (m_TID l)) = Some (line_ts l))
   \<and> (player_pid (register_objects cc ec MissionStats (pre @ l # post)) = Some (- 1)
       \<and> has_AType3 l \<and> \<not> has_AType2 l \<and> int_field (m_AID l) = - 1
       \<and> creditable (register_objects cc ec MissionStats (pre @ l # post)) (int_field (m_TID l))
      \<longrightarrow> int_field (m_TID l) \<in> set (kills (before_duration cc ec (pre @ l # post))))"
proof -
  have a: "player_pid (register_line cc ec s0 l0) = Some (- 1)"
    if "has_AType10 l0" "has_ISPL1 l0" "m_PID_digits l0 = None"
    using that by (simp add: player_pid_register_line int_field_def)
  have b: "fst (process_line (s, d) l)
            = add_kill (set_altitude s (int_field (m_TID l)) (m_POS l)) (int_field (m_TID l))
                (line_ts l)
          \<and> int_field (m_TID l) \<in> set (kills (fst (process_line (s, d) l)))
          \<and> kill_time (fst (process_line (s, d) l)) (int_field (m_TID l)) = Some (line_ts l)"
    if h: "player_pid s = Some (- 1)" "has_AType3 l" "\<not> has_AType2 l"
      "int_field (m_AID l) = - 1" "creditable s (int_field (m_TID l))" for s d
  proof -
    have p: "in_pid_plid s (int_field (m_AID l))"
      using h by (simp add: in_pid_plid_def)
    have "\<not> (case objects s (int_field (m_TID l)) of
               Some obj \<Rightarrow> o_category obj = ''Excluded'' | None \<Rightarrow> False)"
      using h(5) by (auto simp: creditable_def category_of_def split: option.splits)
    then have "on_destroy s l
                 = add_kill (set_altitude s (int_field (m_TID l)) (m_POS l)) (int_field (m_TID l))
                     (line_ts l)"
      using p by (simp add: on_destroy_def Let_def)
    moreover have "int_field (m_TID l) \<in> set (kills (on_destroy s l))"
      using p h(5) by (simp add: kills_on_destroy Let_def)
    moreover have "kill_time (on_destroy s l) (int_field (m_TID l)) = Some (line_ts l)"
      using p h(5) by (simp add: kill_time_on_destroy Let_def)
    ultimately show ?thesis
      using h(2,3) by (simp add: process_line_destroy)
  qed
  have c: "int_field (m_TID l) \<in> set (kills (before_duration cc ec (pre @ l # post)))"
    if h: "player_pid (register_objects cc ec MissionStats (pre @ l # post)) = Some (- 1)"
      "has_AType3 l" "\<not> has_AType2 l" "int_field (m_AID l) = - 1"
      "creditable (register_objects cc ec MissionStats (pre @ l # post)) (int_field (m_TID l))"
  proof -
    define r where "r = register_objects cc ec MissionStats (pre @ l # post)"
    define sp where "sp = collect_events r pre"
    have "player_pid (fst sp) = Some (- 1)" "creditable (fst sp) (int_field (m_TID l))"
      using h by (simp_all add: sp_def r_def collect_events_def)
    then have "int_field (m_TID l) \<in> set (kills (fst (process_line (fst sp, snd sp) l)))"
      using b [of "fst sp" "snd sp"] h by blast
    then have "int_field (m_TID l) \<in> set (kills (fst (process_line sp l)))"
      by simp
    then have "int_field (m_TID l) \<in> set (kills (fst (collect_events r (pre @ l # post))))"
      using kills_mono_foldl [of "process_line sp l" post]
      by (auto simp: collect_events_append sp_def)
    then show ?thesis
      using kills_mono_retro unfolding kills_before_duration r_def by blast
  qed
  show ?thesis
    using a b c by blast
qed

text \<open>
  Witness: \<open>sentinel_log\<close> has no damage line at all, so the damage share of target 5
  does not qualify, and target 5 is credited all the same.
\<close>

theorem sentinel_pid_direct_credit_witness:
  "player_pid (register_line [] [] MissionStats (no_pid_player_line 2)) = Some (- 1)
   \<and> 5 \<in> set (kills (before_duration [] [] sentinel_log))
   \<and> \<not> share_ok (before_duration [] [] sentinel_log) 5"
proof -
  note t = sentinel_pid_direct_credit [of "no_pid_player_line 2" "[]" "[]" MissionStats
      "before_duration [] [] sentinel_log" "destroy_line 100 (- 1) 5" "[]"
      "[no_pid_player_line 2, object_line 5 ''bf109'']" "[]"]
  have h1: "has_AType10 (no_pid_player_line 2) \<and> has_ISPL1 (no_pid_player_line 2)
              \<and> m_PID_digits (no_pid_player_line 2) = None"
    by code_simp
  have e: "[no_pid_player_line 2, object_line 5 ''bf109''] @ destroy_line 100 (- 1) 5 # []
             = sentinel_log"
    by (simp add: sentinel_log_def)
  have h2: "player_pid (register_objects [] [] MissionStats sentinel_log) = Some (- 1)
       \<and> has_AType3 (destroy_line 100 (- 1) 5) \<and> \<not> has_AType2 (destroy_line 100 (- 1) 5)
       \<and> int_field (m_AID (destroy_line 100 (- 1) 5)) = - 1
       \<and> creditable (register_objects [] [] MissionStats sentinel_log)
            (int_field (m_TID (destroy_line 100 (- 1) 5)))"
    by code_simp
  have h3: "int_field (m_TID (destroy_line 100 (- 1) 5)) = 5"
    by code_simp
  have h4: "\<not> share_ok (before_duration [] [] sentinel_log) 5"
    by code_simp
  show ?thesis
    using t h1 h2 h3 h4 unfolding e by simp
qed

subsection \<open>C1: indirect kills\<close>




text \<open>
  In \<open>rounding_share_log\<close> the decimal fractions give a share of exactly 0.8; the floats
  give a quotient below the float 0.8.
\<close>

lemma share_rounded_below_threshold:
  "(0.04 :: rat) / (0.04 + 0.01) = 0.8
   \<and> player_damage (before_duration [] [] rounding_share_log) 5 = fl 0.04
   \<and> total_damage (before_duration [] [] rounding_share_log) 5 = fadd (fl 0.04) (fl 0.01)
   \<and> fdiv (fl 0.04) (fadd (fl 0.04) (fl 0.01)) < fl 0.8
   \<and> kills (before_duration [] [] rounding_share_log) = []"
  by code_simp

subsection \<open>Flight duration and the terminal event\<close>

lemma fold_max_ge: "r \<in> set (r0 # rs) \<Longrightarrow> (r::int) \<le> fold max rs r0"
  by (simp only: Max.set_eq_fold [symmetric]) (rule Max_ge, simp_all)

lemma max_time_raw_ge:
  assumes "e \<in> set evs" and "e_time_raw e = Some r"
  shows "r \<le> max_time_raw evs d"
proof -
  define rs where "rs = map (\<lambda>e. case e_time_raw e of Some r \<Rightarrow> r | None \<Rightarrow> 0) evs"
  have mem: "r \<in> set rs"
    using assms unfolding rs_def by force
  then obtain r0 rs' where m: "rs = r0 # rs'"
    by (cases rs) auto
  have "r \<le> fold max rs' r0"
    using mem unfolding m by (rule fold_max_ge)
  then show ?thesis
    using m by (simp add: max_time_raw_def rs_def [symmetric])
qed

lemma mission_end_raises:
  assumes "takeoff_time s = Some t0" and "t0 \<noteq> 0" and "\<not> truthy (landing_time s)"
    and "e \<in> set (events s)" and "e_time_raw e = Some r" and "t0 < r"
  shows "compute_flight_duration s = Inl AttributeError"
proof -
  have "events s \<noteq> []" using assms(4) by auto
  moreover have "t0 < max_time_raw (events s) t0"
    using max_time_raw_ge [OF assms(4,5), of t0] assms(6) by simp
  ultimately show ?thesis
    using assms(1-3) by (simp add: compute_flight_duration_def Let_def)
qed

lemma on_landing_ignored: "truthy (landing_time s) \<Longrightarrow> on_landing s l = s"
  by (simp add: on_landing_def Let_def)

lemma on_landing_other_pilot: "\<not> in_pid_plid s (int_field (m_PID l)) \<Longrightarrow> on_landing s l = s"
  by (simp add: on_landing_def Let_def)

lemma on_landing_bailout:
  assumes "in_pid_plid s (int_field (m_PID l))" and "\<not> truthy (landing_time s)"
    and "pilot_separation_time s = Some sep" and "sep \<noteq> 0" and "line_t l - sep > 2000"
  shows "final_state (on_landing s l) = with_wounded s ''Bailout''"
    and "\<not> crashed (on_landing s l)" and "\<not> landed (on_landing s l)"
    and "events (on_landing s l) = events s @ [plain_event l Bailout]"
    and "landing_time (on_landing s l) = Some (line_t l)"
  using assms by (simp_all add: on_landing_def outcome_defs Let_def)

lemma on_landing_crash_after_separation:
  assumes "in_pid_plid s (int_field (m_PID l))" and "\<not> truthy (landing_time s)"
    and "pilot_separation_time s = Some sep" and "sep \<noteq> 0" and "line_t l - sep \<le> 2000"
    and "has_AType7 l"
  shows "final_state (on_landing s l) = with_wounded s ''Crashed''"
    and "crashed (on_landing s l)"
    and "events (on_landing s l) = events s @ [plain_event l Crash]"
    and "landing_time (on_landing s l) = Some (line_t l)"
  using assms by (simp_all add: on_landing_def outcome_defs Let_def)

lemma on_landing_landed_after_separation:
  assumes "in_pid_plid s (int_field (m_PID l))" and "\<not> truthy (landing_time s)"
    and "pilot_separation_time s = Some sep" and "sep \<noteq> 0" and "line_t l - sep \<le> 2000"
    and "\<not> has_AType7 l"
  shows "final_state (on_landing s l) = with_wounded s ''Landed''"
    and "landed (on_landing s l)"
    and "events (on_landing s l) = events s @ [plain_event l Landing]"
    and "landing_time (on_landing s l) = Some (line_t l)"
  using assms by (simp_all add: on_landing_def outcome_defs Let_def)

lemma on_landing_no_separation:
  assumes "in_pid_plid s (int_field (m_PID l))" and "\<not> truthy (landing_time s)"
    and "\<not> truthy (pilot_separation_time s)"
  shows "final_state (on_landing s l)
           = with_wounded s (if has_AType7 l then ''Crashed'' else ''Landed'')"
    and "crashed (on_landing s l) = (has_AType7 l \<or> crashed s)"
    and "landed (on_landing s l) = (\<not> has_AType7 l \<or> landed s)"
    and "events (on_landing s l)
           = events s @ [plain_event l (if has_AType7 l then Crash else Landing)]"
    and "landing_time (on_landing s l) = Some (line_t l)"
  using assms
  by (auto simp: on_landing_def outcome_defs Let_def truthy_def split: option.splits)

text \<open>Once \<open>landing_time\<close> holds a tick other than 0, no later line changes the outcome.\<close>

lemma process_line_terminal:
  assumes "truthy (landing_time (fst sd))"
  shows "landing_time (fst (process_line sd l)) = landing_time (fst sd)"
    and "final_state (fst (process_line sd l)) = final_state (fst sd)"
    and "landed (fst (process_line sd l)) = landed (fst sd)"
    and "crashed (fst (process_line sd l)) = crashed (fst sd)"
  using assms by (simp_all add: process_line_def Let_def on_landing_ignored)

lemma foldl_process_line_terminal:
  assumes "truthy (landing_time (fst sd))"
  shows "landing_time (fst (foldl process_line sd ls)) = landing_time (fst sd)
       \<and> final_state (fst (foldl process_line sd ls)) = final_state (fst sd)
       \<and> landed (fst (foldl process_line sd ls)) = landed (fst sd)
       \<and> crashed (fst (foldl process_line sd ls)) = crashed (fst sd)"
  using assms
proof (induction ls arbitrary: sd)
  case Nil
  then show ?case by simp
next
  case (Cons l ls)
  have "truthy (landing_time (fst (process_line sd l)))"
    using Cons.prems by (simp add: process_line_terminal)
  then show ?case
    using Cons.IH [of "process_line sd l"] Cons.prems by (simp add: process_line_terminal)
qed

subsection \<open>C4: a flight without a landing\<close>

text \<open>
  C4. With a takeoff recorded, no landing or crash event, and a later event in the
  timeline, the engine should add a Mission End event at the latest time and still
  compute the flight duration. The code reaches that place and fails there: in
  \<open>no_landing_log\<close> (takeoff at tick 1000, aircraft damage at tick 2000) \<open>parse\<close> raises
  \<open>AttributeError\<close> instead of returning.
\<close>

theorem mission_end_attribute_error:
  "takeoff_time (before_duration [] [] no_landing_log) = Some 1000
   \<and> landing_time (before_duration [] [] no_landing_log) = None
   \<and> map e_type (events (before_duration [] [] no_landing_log)) = [Takeoff, Damage_Taken]
   \<and> map e_time_raw (events (before_duration [] [] no_landing_log)) = [Some 1000, Some 2000]
   \<and> parse [] [] no_landing_log = Inl AttributeError"
proof -
  have a: "takeoff_time (before_duration [] [] no_landing_log) = Some 1000"
    and b: "landing_time (before_duration [] [] no_landing_log) = None"
    and c: "map e_type (events (before_duration [] [] no_landing_log)) = [Takeoff, Damage_Taken]"
    and d: "map e_time_raw (events (before_duration [] [] no_landing_log)) = [Some 1000, Some 2000]"
    by code_simp+
  have e: "events (before_duration [] [] no_landing_log) ! 1
             \<in> set (events (before_duration [] [] no_landing_log))"
    by code_simp
  have f: "e_time_raw (events (before_duration [] [] no_landing_log) ! 1) = Some 2000"
    by code_simp
  have "compute_flight_duration (before_duration [] [] no_landing_log) = Inl AttributeError"
    by (rule mission_end_raises [OF a _ _ e f]) (simp_all add: b truthy_def)
  then show ?thesis
    using a b c d by (simp add: parse_def)
qed

subsection \<open>C2: the terminal outcome\<close>

text \<open>
  C2. Only the first landing or crash event of the controlled pilot should set the
  terminal state. In \<open>tick0_log\<close> the first such event is a landing at tick 0 and the
  second a crash at tick 500: after the first the state is Landed, after the second it is
  Crashed, both flags are set and the timeline has both events.
\<close>

theorem first_landing_at_tick_0_not_final:
  "map e_type (events (before_duration [] [] (take 2 tick0_log))) = [Landing]
   \<and> final_state (before_duration [] [] (take 2 tick0_log)) = ''Landed''
   \<and> map e_type (events (before_duration [] [] tick0_log)) = [Landing, Crash]
   \<and> final_state (before_duration [] [] tick0_log) = ''Crashed''
   \<and> landed (before_duration [] [] tick0_log) \<and> crashed (before_duration [] [] tick0_log)
   \<and> landing_time (before_duration [] [] tick0_log) = Some 500"
  by code_simp

subsection \<open>C5: classification\<close>

lemma startswith_iff: "startswith s p \<longleftrightarrow> (\<exists>zs. s = p @ zs)"
proof
  assume "startswith s p"
  then have "s = p @ drop (length p) s"
    unfolding startswith_def by (metis append_take_drop_id)
  then show "\<exists>zs. s = p @ zs" ..
next
  assume "\<exists>zs. s = p @ zs"
  then show "startswith s p" by (auto simp: startswith_def)
qed

lemma contains_iff: "contains x s \<longleftrightarrow> (\<exists>ys zs. s = ys @ x @ zs)"
proof (induction s)
  case Nil
  then show ?case by auto
next
  case (Cons c cs)
  show ?case
  proof
    assume "contains x (c # cs)"
    then consider "startswith (c # cs) x" | "contains x cs" by auto
    then show "\<exists>ys zs. c # cs = ys @ x @ zs"
    proof cases
      case 1
      then obtain zs where "c # cs = x @ zs" by (auto simp: startswith_iff)
      then have "c # cs = [] @ x @ zs" by simp
      then show ?thesis by blast
    next
      case 2
      then obtain ys zs where "cs = ys @ x @ zs" using Cons.IH by auto
      then have "c # cs = (c # ys) @ x @ zs" by simp
      then show ?thesis by blast
    qed
  next
    assume "\<exists>ys zs. c # cs = ys @ x @ zs"
    then obtain ys zs where e: "c # cs = ys @ x @ zs" by auto
    show "contains x (c # cs)"
    proof (cases ys)
      case Nil
      then have "startswith (c # cs) x" using e by (auto simp: startswith_iff)
      then show ?thesis by simp
    next
      case (Cons y ys')
      then have "cs = ys' @ x @ zs" using e by simp
      then have "contains x cs" using Cons.IH by auto
      then show ?thesis by simp
    qed
  qed
qed

lemma find_first_index:
  "find P xs = Some y \<longleftrightarrow> (\<exists>i < length xs. xs ! i = y \<and> P y \<and> (\<forall>j < i. \<not> P (xs ! j)))"
  by (auto simp: find_Some_iff)

lemma classify_type_unfold:
  "classify_type cc ec t =
     (if list_ex (\<lambda>x. contains x (match_tag t)) ec then ''Excluded''
      else (case find (\<lambda>(cat, keywords). match_tag t \<in> set (map lower keywords)) cc of
              Some (cat, keywords) \<Rightarrow> cat
            | None \<Rightarrow> ''Unknown''))"
  by (simp add: classify_type_def match_tag_def split_first_bracket_def Let_def)

text \<open>
  C5 as stated fails: the static-object marker is not taken off before matching. With
  the keyword \<open>bf109\<close> under Air, the tag \<open>static_bf109[1,0]\<close> is matched as
  \<open>static_bf109\<close> and is Unknown; with the marker taken off it would be Air.
\<close>

theorem classify_type_static_counterexample:
  "classify_type example_categories [''botpilot''] ''static_bf109[1,0]'' = ''Unknown''
   \<and> classify_as_claimed example_categories [''botpilot''] ''static_bf109[1,0]'' = ''Air''"
  by code_simp

text \<open>
  C5, amended. The tag is lower-cased and trimmed; when it begins with \<open>static_\<close> and has
  a \<open>[\<close>, it is cut at the first \<open>[\<close> and keeps the marker \<open>static_\<close>. The result is
  Excluded when an exclusion keyword is a substring of this tag; otherwise it is the
  first category with the tag among its lower-cased keywords, and Unknown when there is
  none. A keyword \<open>flak\<close> does not match the tag \<open>flak88x\<close>. The classification is a
  function of the tag and the two tables, so equal inputs give equal results.
\<close>

theorem classify_type_exact_match:
  "((\<exists>x \<in> set ec. \<exists>ys zs. match_tag t = ys @ x @ zs) \<longrightarrow> classify_type cc ec t = ''Excluded'')
   \<and> (\<not> (\<exists>x \<in> set ec. \<exists>ys zs. match_tag t = ys @ x @ zs) \<longrightarrow>
        (\<forall>i < length cc.
            match_tag t \<in> set (map lower (snd (cc ! i)))
            \<and> (\<forall>j < i. match_tag t \<notin> set (map lower (snd (cc ! j))))
          \<longrightarrow> classify_type cc ec t = fst (cc ! i))
        \<and> ((\<forall>i < length cc. match_tag t \<notin> set (map lower (snd (cc ! i))))
          \<longrightarrow> classify_type cc ec t = ''Unknown''))
   \<and> match_tag t = (let s0 = strip (lower t)
                    in if startswith s0 ''static_'' \<and> CHR ''['' \<in> set s0
                       then takeWhile (\<lambda>c. c \<noteq> CHR ''['') s0 else s0)
   \<and> classify_type [(c, [''flak''])] [] ''flak88x'' = ''Unknown''"
proof -
  let ?s = "match_tag t"
  let ?P = "\<lambda>(cat, keywords). ?s \<in> set (map lower keywords)"
  have ex: "list_ex (\<lambda>x. contains x ?s) ec \<longleftrightarrow> (\<exists>x \<in> set ec. \<exists>ys zs. ?s = ys @ x @ zs)"
    by (simp add: list_ex_iff contains_iff)
  have a: "classify_type cc ec t = ''Excluded''" if "\<exists>x \<in> set ec. \<exists>ys zs. ?s = ys @ x @ zs"
    using that ex by (simp add: classify_type_unfold)
  have b: "classify_type cc ec t = fst (cc ! i)"
    if n: "\<not> (\<exists>x \<in> set ec. \<exists>ys zs. ?s = ys @ x @ zs)" and i: "i < length cc"
      and m: "?s \<in> set (map lower (snd (cc ! i)))"
      and f: "\<forall>j < i. ?s \<notin> set (map lower (snd (cc ! j)))" for i
  proof -
    have "find ?P cc = Some (cc ! i)"
      unfolding find_Some_iff using i m f by (auto simp: case_prod_beta)
    then show ?thesis
      using n ex by (simp add: classify_type_unfold case_prod_beta)
  qed
  have c: "classify_type cc ec t = ''Unknown''"
    if n: "\<not> (\<exists>x \<in> set ec. \<exists>ys zs. ?s = ys @ x @ zs)"
      and f: "\<forall>i < length cc. ?s \<notin> set (map lower (snd (cc ! i)))"
  proof -
    have "find ?P cc = None"
      unfolding find_None_iff using f by (auto simp: case_prod_beta in_set_conv_nth)
    then show ?thesis
      using n ex by (simp add: classify_type_unfold)
  qed
  have d: "classify_type [(c, [''flak''])] [] ''flak88x'' = ''Unknown''"
    by (simp add: classify_type_def lower_def lower_char_def strip_def is_space_def
        startswith_def split_first_bracket_def)
  show ?thesis
    using a b c d by (simp add: match_tag_def)
qed

text \<open>Witness: one tag for each of the three outcomes, and the tag \<open>flak88x\<close>.\<close>

theorem classify_type_exact_match_witness:
  "classify_type example_categories [''botpilot''] ''BotPilot_Il2'' = ''Excluded''
   \<and> classify_type example_categories [''botpilot''] '' Static_Il2[9337,0] '' = ''Air''
   \<and> classify_type example_categories [''botpilot''] ''Truck'' = ''Ground''
   \<and> classify_type example_categories [''botpilot''] ''flak88x'' = ''Unknown''"
proof -
  note t1 = classify_type_exact_match [of "[''botpilot'']" "''BotPilot_Il2''" example_categories]
  note t2 = classify_type_exact_match
      [of "[''botpilot'']" "'' Static_Il2[9337,0] ''" example_categories]
  note t3 = classify_type_exact_match [of "[''botpilot'']" "''Truck''" example_categories]
  note t4 = classify_type_exact_match [of "[''botpilot'']" "''flak88x''" example_categories]
  have sub: "(\<exists>x \<in> set [''botpilot'']. \<exists>ys zs. match_tag t = ys @ x @ zs)
               \<longleftrightarrow> contains ''botpilot'' (match_tag t)" for t
    by (simp add: contains_iff)
  have h1: "contains ''botpilot'' (match_tag ''BotPilot_Il2'')"
    by code_simp
  have n2: "\<not> contains ''botpilot'' (match_tag '' Static_Il2[9337,0] '')"
    and n3: "\<not> contains ''botpilot'' (match_tag ''Truck'')"
    and n4: "\<not> contains ''botpilot'' (match_tag ''flak88x'')"
    by code_simp+
  have len: "length example_categories = 2"
    and f0: "fst (example_categories ! 0) = ''Air''"
    and f1: "fst (example_categories ! 1) = ''Ground''"
    by code_simp+
  have m2: "match_tag '' Static_Il2[9337,0] '' \<in> set (map lower (snd (example_categories ! 0)))"
    and m3: "match_tag ''Truck'' \<in> set (map lower (snd (example_categories ! 1)))"
    and m3': "match_tag ''Truck'' \<notin> set (map lower (snd (example_categories ! 0)))"
    and m4: "match_tag ''flak88x'' \<notin> set (map lower (snd (example_categories ! 0)))"
    and m4': "match_tag ''flak88x'' \<notin> set (map lower (snd (example_categories ! 1)))"
    by code_simp+
  have e1: "\<exists>x \<in> set [''botpilot'']. \<exists>ys zs. match_tag ''BotPilot_Il2'' = ys @ x @ zs"
    using h1 sub by simp
  have e2: "\<not> (\<exists>x \<in> set [''botpilot'']. \<exists>ys zs. match_tag '' Static_Il2[9337,0] '' = ys @ x @ zs)"
    using n2 sub by simp
  have e3: "\<not> (\<exists>x \<in> set [''botpilot'']. \<exists>ys zs. match_tag ''Truck'' = ys @ x @ zs)"
    using n3 sub by simp
  have e4: "\<not> (\<exists>x \<in> set [''botpilot'']. \<exists>ys zs. match_tag ''flak88x'' = ys @ x @ zs)"
    using n4 sub by simp
  have r1: "classify_type example_categories [''botpilot''] ''BotPilot_Il2'' = ''Excluded''"
    using t1 [THEN conjunct1, THEN mp, OF e1] .
  have i0: "(0::nat) < length example_categories" and i1: "(1::nat) < length example_categories"
    using len by simp_all
  have p2: "\<forall>j < (0::nat). match_tag '' Static_Il2[9337,0] ''
              \<notin> set (map lower (snd (example_categories ! j)))"
    by simp
  have r2: "classify_type example_categories [''botpilot''] '' Static_Il2[9337,0] '' = ''Air''"
    using t2 [THEN conjunct2, THEN conjunct1, THEN mp, OF e2, THEN conjunct1, THEN spec,
        THEN mp, OF i0, THEN mp, OF conjI, OF m2 p2]
    by (simp only: f0)
  have p3: "\<forall>j < (1::nat). match_tag ''Truck'' \<notin> set (map lower (snd (example_categories ! j)))"
    using m3' by (simp only: less_one) blast
  have r3: "classify_type example_categories [''botpilot''] ''Truck'' = ''Ground''"
    using t3 [THEN conjunct2, THEN conjunct1, THEN mp, OF e3, THEN conjunct1, THEN spec,
        THEN mp, OF i1, THEN mp, OF conjI, OF m3 p3]
    by (simp only: f1)
  have p4: "\<forall>i < length example_categories.
              match_tag ''flak88x'' \<notin> set (map lower (snd (example_categories ! i)))"
  proof (intro allI impI)
    fix i assume "i < length example_categories"
    then have "i = 0 \<or> i = 1" using len by auto
    then show "match_tag ''flak88x'' \<notin> set (map lower (snd (example_categories ! i)))"
    proof
      assume "i = 0"
      then show ?thesis using m4 by blast
    next
      assume "i = 1"
      then show ?thesis using m4' by blast
    qed
  qed
  have r4: "classify_type example_categories [''botpilot''] ''flak88x'' = ''Unknown''"
    using t4 [THEN conjunct2, THEN conjunct1, THEN mp, OF e4, THEN conjunct2, THEN mp, OF p4] .
  show ?thesis
    using r1 r2 r3 r4 by (intro conjI)
qed

subsection \<open>C3: landing damage\<close>







end
